theory Spec2Isabelle
  imports Complex_Main
begin

section \<open>Data model\<close>

text \<open>
  The drawing surface of the repository is a React component (\<^verbatim>\<open>Canvas\<close>) over two
  stacked HTML canvases: the main canvas holds the persistent layer, the preview canvas
  the in-progress shape. Numbers are \<^typ>\<open>real\<close> (no signed zero, no NaN, no
  infinities), and the handlers compute on them without rounding, but for the extents of
  a rectangle, which are rounded as the host rounds an IEEE double (\<open>double_sub\<close>): the
  box a rectangle spans depends on it. Where the source divides, the model says what
  happens at a zero divisor. Strings are \<^typ>\<open>string\<close>, one character per code
  unit.
\<close>

record point =
  coord_x :: real
  coord_y :: real

datatype draw_mode = Pen | Rectangle | Circle | Line | Arrow | Text | Move

text \<open>The older component (\<^verbatim>\<open>src/components/paint/canvas.tsx\<close>) knows four tools only.\<close>

datatype draw_mode_v1 = Pen_v1 | Rectangle_v1 | Circle_v1 | Line_v1

fun shared_mode :: "draw_mode_v1 \<Rightarrow> draw_mode" where
  "shared_mode Pen_v1 = Pen"
| "shared_mode Rectangle_v1 = Rectangle"
| "shared_mode Circle_v1 = Circle"
| "shared_mode Line_v1 = Line"

text \<open>
  The props of the component. The older component has the first five, with
  \<^typ>\<open>draw_mode_v1\<close> for the tool; the newer one adds the two sketchy-rendering props.
\<close>

record 'm canvas_props =
  width :: real
  height :: real
  color :: string
  lineWidth :: real
  drawMode :: 'm

record rough_props = "draw_mode canvas_props" +
  roughness :: real
  enableRough :: bool

subsection \<open>What is painted on a canvas\<close>

datatype path_cmd =
    PMoveTo real real
  | PLineTo real real
  | PRect real real real real
  | PArc real real real real real
  | PClosePath

datatype xform = Translate real real | Rotate real

record rough_options =
  opt_stroke :: string
  opt_strokeWidth :: real
  opt_roughness :: real
  opt_fill :: "string option"

text \<open>
  A drawable of the roughjs generator, kept as the request that produced it (shape and
  options); how the library jitters the strokes is left to the rasteriser.
\<close>

datatype drawable =
    RoughRectangle real real real real rough_options
  | RoughCircle real real real rough_options
  | RoughLine real real real real rough_options
  | RoughLinearPath "(real \<times> real) list" rough_options

datatype text_baseline = Alphabetic | Top

record font =
  font_px :: real
  font_family :: string

record html_image =
  img_width :: real
  img_height :: real
  img_src :: string

text \<open>
  A raster is represented by the paints that produced it from the blank (fully
  transparent) canvas, oldest first. \<open>LayerPaint\<close> is \<^verbatim>\<open>drawImage\<close> of another
  canvas, \<open>ClearPaint\<close> a \<^verbatim>\<open>clearRect\<close> that does not cover the canvas.
\<close>

datatype paint =
    StrokePaint "path_cmd list" string real "xform list"
  | FillPaint "path_cmd list" string "xform list"
  | TextPaint string real real font string text_baseline "xform list"
  | RoughPaint drawable "xform list"
  | ImagePaint html_image real real real real
  | LayerPaint "paint list" int int
  | ClearPaint real real real real

type_synonym raster = "paint list"

definition blank :: raster where
  "blank = []"

record context2d =
  raster :: raster
  path :: "path_cmd list"
  strokeStyle :: string
  ctx_lineWidth :: real
  fillStyle :: string
  ctx_font :: font
  textBaseline :: text_baseline
  transform :: "xform list"
  saved :: "xform list list"


subsection \<open>The canvas API, as far as the component calls it\<close>

text \<open>
  The browser is not part of the repository. Each call the component makes on a
  \<^verbatim>\<open>CanvasRenderingContext2D\<close> is modelled by its effect on the record above: path
  calls extend the current path, \<^verbatim>\<open>stroke\<close>, \<^verbatim>\<open>fill\<close>, \<^verbatim>\<open>fillText\<close> and
  \<^verbatim>\<open>drawImage\<close> add a paint to the raster.
\<close>

definition beginPath :: "context2d \<Rightarrow> context2d" where
  "beginPath c = c\<lparr>path := []\<rparr>"

definition moveTo :: "real \<Rightarrow> real \<Rightarrow> context2d \<Rightarrow> context2d" where
  "moveTo x y c = c\<lparr>path := path c @ [PMoveTo x y]\<rparr>"

definition lineTo :: "real \<Rightarrow> real \<Rightarrow> context2d \<Rightarrow> context2d" where
  "lineTo x y c = c\<lparr>path := path c @ [PLineTo x y]\<rparr>"

definition rect :: "real \<Rightarrow> real \<Rightarrow> real \<Rightarrow> real \<Rightarrow> context2d \<Rightarrow> context2d" where
  "rect x y w h c = c\<lparr>path := path c @ [PRect x y w h]\<rparr>"

definition arc :: "real \<Rightarrow> real \<Rightarrow> real \<Rightarrow> real \<Rightarrow> real \<Rightarrow> context2d \<Rightarrow> context2d" where
  "arc x y r a0 a1 c = c\<lparr>path := path c @ [PArc x y r a0 a1]\<rparr>"

definition closePath :: "context2d \<Rightarrow> context2d" where
  "closePath c = c\<lparr>path := path c @ [PClosePath]\<rparr>"

definition stroke :: "context2d \<Rightarrow> context2d" where
  "stroke c =
     c\<lparr>raster := raster c @ [StrokePaint (path c) (strokeStyle c) (ctx_lineWidth c) (transform c)]\<rparr>"

definition fill :: "context2d \<Rightarrow> context2d" where
  "fill c = c\<lparr>raster := raster c @ [FillPaint (path c) (fillStyle c) (transform c)]\<rparr>"

definition fillText :: "string \<Rightarrow> real \<Rightarrow> real \<Rightarrow> context2d \<Rightarrow> context2d" where
  "fillText t x y c =
     c\<lparr>raster := raster c @
          [TextPaint t x y (ctx_font c) (fillStyle c) (textBaseline c) (transform c)]\<rparr>"

text \<open>
  \<^verbatim>\<open>clearRect(x, y, w, h)\<close> on a canvas of size \<open>cw \<times> ch\<close>: a rectangle that covers
  the canvas leaves the blank raster, any other one is recorded as an erasure.
\<close>

definition clearRect ::
  "real \<times> real \<Rightarrow> real \<Rightarrow> real \<Rightarrow> real \<Rightarrow> real \<Rightarrow> context2d \<Rightarrow> context2d" where
  "clearRect dims x y w h c =
     (if x \<le> 0 \<and> y \<le> 0 \<and> fst dims \<le> x + w \<and> snd dims \<le> y + h
      then c\<lparr>raster := blank\<rparr>
      else c\<lparr>raster := raster c @ [ClearPaint x y w h]\<rparr>)"

text \<open>\<^verbatim>\<open>drawImage(canvas, dx, dy)\<close>: the whole bitmap of another canvas, at an offset.\<close>

definition drawImage_canvas :: "context2d \<Rightarrow> int \<Rightarrow> int \<Rightarrow> context2d \<Rightarrow> context2d" where
  "drawImage_canvas src dx dy c = c\<lparr>raster := raster c @ [LayerPaint (raster src) dx dy]\<rparr>"

text \<open>\<^verbatim>\<open>drawImage(img, x, y, w, h)\<close>: a decoded image, scaled to \<open>w \<times> h\<close>.\<close>

definition drawImage :: "html_image \<Rightarrow> real \<Rightarrow> real \<Rightarrow> real \<Rightarrow> real \<Rightarrow> context2d \<Rightarrow> context2d" where
  "drawImage img x y w h c = c\<lparr>raster := raster c @ [ImagePaint img x y w h]\<rparr>"

definition save :: "context2d \<Rightarrow> context2d" where
  "save c = c\<lparr>saved := transform c # saved c\<rparr>"

definition restore :: "context2d \<Rightarrow> context2d" where
  "restore c = (case saved c of [] \<Rightarrow> c | t # ts \<Rightarrow> c\<lparr>transform := t, saved := ts\<rparr>)"

definition translate :: "real \<Rightarrow> real \<Rightarrow> context2d \<Rightarrow> context2d" where
  "translate x y c = c\<lparr>transform := transform c @ [Translate x y]\<rparr>"

definition rotate_ctx :: "real \<Rightarrow> context2d \<Rightarrow> context2d" where
  "rotate_ctx a c = c\<lparr>transform := transform c @ [Rotate a]\<rparr>"

text \<open>
  \<^verbatim>\<open>rough.canvas(el).draw(d)\<close> paints the drawable on the context of \<open>el\<close>, under the
  transform in force, inside its own \<^verbatim>\<open>save\<close>/\<^verbatim>\<open>restore\<close>.
\<close>

definition rough_draw :: "drawable \<Rightarrow> context2d \<Rightarrow> context2d" where
  "rough_draw d c = c\<lparr>raster := raster c @ [RoughPaint d (transform c)]\<rparr>"

subsection \<open>Pixels\<close>

text \<open>
  What a raster shows: a bitmap gives each pixel its colour and its coverage \<open>alpha\<close>
  between 0 (transparent) and 1 (opaque), the colour channels premultiplied by
  \<open>alpha\<close>. The rasteriser \<open>R\<close> of the browser (which pixels a stroke, a fill, a text,
  a roughjs drawable or an image covers, and how far at an anti-aliased edge) is a
  parameter. Painting composites source-over, the default
  \<^verbatim>\<open>globalCompositeOperation\<close>, which the component never changes.
\<close>

record rgba =
  red :: real
  green :: real
  blue :: real
  alpha :: real

type_synonym bitmap = "int \<times> int \<Rightarrow> rgba"

definition clear_pixel :: rgba where
  "clear_pixel = \<lparr>red = 0, green = 0, blue = 0, alpha = 0\<rparr>"

definition transparent :: bitmap where
  "transparent = (\<lambda>q. clear_pixel)"

definition source_over :: "rgba \<Rightarrow> rgba \<Rightarrow> rgba" where
  "source_over src dst =
     \<lparr>red = red src + red dst * (1 - alpha src),
      green = green src + green dst * (1 - alpha src),
      blue = blue src + blue dst * (1 - alpha src),
      alpha = alpha src + alpha dst * (1 - alpha src)\<rparr>"

definition over :: "bitmap \<Rightarrow> bitmap \<Rightarrow> bitmap" where
  "over fg bg = (\<lambda>q. source_over (fg q) (bg q))"

definition shift :: "int \<Rightarrow> int \<Rightarrow> bitmap \<Rightarrow> bitmap" where
  "shift dx dy b = (\<lambda>(i, j). b (i - dx, j - dy))"

definition erase :: "real \<Rightarrow> real \<Rightarrow> real \<Rightarrow> real \<Rightarrow> bitmap \<Rightarrow> bitmap" where
  "erase x y w h b =
     (\<lambda>(i, j). if min x (x + w) \<le> real_of_int i \<and> real_of_int i < max x (x + w)
                 \<and> min y (y + h) \<le> real_of_int j \<and> real_of_int j < max y (y + h)
               then clear_pixel else b (i, j))"

fun paint_on :: "(paint \<Rightarrow> bitmap) \<Rightarrow> paint \<Rightarrow> bitmap \<Rightarrow> bitmap" where
  "paint_on R (LayerPaint src dx dy) b =
     over (shift dx dy (foldl (\<lambda>b' q. paint_on R q b') transparent src)) b"
| "paint_on R (ClearPaint x y w h) b = erase x y w h b"
| "paint_on R (StrokePaint pth st lw tf) b = over (R (StrokePaint pth st lw tf)) b"
| "paint_on R (FillPaint pth st tf) b = over (R (FillPaint pth st tf)) b"
| "paint_on R (TextPaint t x y f st bl tf) b = over (R (TextPaint t x y f st bl tf)) b"
| "paint_on R (RoughPaint d tf) b = over (R (RoughPaint d tf)) b"
| "paint_on R (ImagePaint img x y w h) b = over (R (ImagePaint img x y w h)) b"

definition pixels :: "(paint \<Rightarrow> bitmap) \<Rightarrow> raster \<Rightarrow> bitmap" where
  "pixels R ps = foldl (\<lambda>b q. paint_on R q b) transparent ps"


text \<open>
  What a transform means: \<open>to_canvas tf v\<close> is where the point \<open>v\<close> of a path drawn
  under the transform \<open>tf\<close> lands on the canvas.
\<close>

fun apply_xform :: "xform \<Rightarrow> real \<times> real \<Rightarrow> real \<times> real" where
  "apply_xform (Translate tx ty) (x, y) = (x + tx, y + ty)"
| "apply_xform (Rotate a) (x, y) = (x * cos a - y * sin a, x * sin a + y * cos a)"

definition to_canvas :: "xform list \<Rightarrow> real \<times> real \<Rightarrow> real \<times> real" where
  "to_canvas tf v = foldr apply_xform tf v"

section \<open>The Canvas component\<close>

subsection \<open>Pointer events and coordinates\<close>

text \<open>
  A mouse event carries \<^verbatim>\<open>clientX\<close>, \<^verbatim>\<open>clientY\<close>; a touch event (one with a
  \<^verbatim>\<open>touches\<close> list) is read at \<^verbatim>\<open>touches[0]\<close>, which \<^verbatim>\<open>touchstart\<close> and
  \<^verbatim>\<open>touchmove\<close> always have.
\<close>

datatype pointer_event = MouseEvent real real | TouchEvent real real

record dom_rect =
  rect_left :: real
  rect_top :: real

text \<open>
  \<open>canvasRef\<close> is the bounding rectangle of \<^verbatim>\<open>canvasRef.current\<close> when the event
  arrives, \<open>None\<close> while the ref is null. It is read anew at every call.
\<close>

definition getCoordinates :: "dom_rect option \<Rightarrow> pointer_event \<Rightarrow> point" where
  "getCoordinates canvasRef e =
     (case canvasRef of
        None \<Rightarrow> \<lparr>coord_x = 0, coord_y = 0\<rparr>
      | Some r \<Rightarrow>
          (case e of
             TouchEvent clientX clientY \<Rightarrow>
               \<lparr>coord_x = clientX - rect_left r, coord_y = clientY - rect_top r\<rparr>
           | MouseEvent clientX clientY \<Rightarrow>
               \<lparr>coord_x = clientX - rect_left r, coord_y = clientY - rect_top r\<rparr>))"

subsection \<open>Numbers and strings of the host language\<close>

text \<open>
  A JavaScript number is an IEEE 754 double: 53 significant bits, results rounded to the
  nearest double, ties to the even one. \<open>binade x\<close> is the exponent of \<open>x\<close>, and the
  doubles around \<open>x\<close> are the multiples of \<open>2\<close> to the power \<open>binade x - 52\<close>.
  Overflow and subnormal numbers are left out; canvas coordinates are far from both.
  \<open>double_sub\<close> and \<open>double_add\<close> are \<^verbatim>\<open>a - b\<close> and \<^verbatim>\<open>a + b\<close> as the host
  computes them.
\<close>

definition round_half_even :: "real \<Rightarrow> int" where
  "round_half_even m =
     (let f = \<lfloor>m\<rfloor>
      in if m - of_int f < 1 / 2 then f
         else if 1 / 2 < m - of_int f then f + 1
         else if even f then f else f + 1)"

definition binade :: "real \<Rightarrow> int" where
  "binade x = \<lfloor>log 2 \<bar>x\<bar>\<rfloor>"

definition double_round :: "real \<Rightarrow> real" where
  "double_round x =
     (if x = 0 then 0
      else let ulp = 2 powr (of_int (binade x) - 52)
           in of_int (round_half_even (x / ulp)) * ulp)"

definition double_sub :: "real \<Rightarrow> real \<Rightarrow> real" where
  "double_sub a b = double_round (a - b)"

definition double_add :: "real \<Rightarrow> real \<Rightarrow> real" where
  "double_add a b = double_round (a + b)"

text \<open>\<^verbatim>\<open>Math.atan2(y, x)\<close>, the angle of the vector \<open>(x, y)\<close> in \<open>(-\<pi>, \<pi>]\<close>.\<close>

definition atan2 :: "real \<Rightarrow> real \<Rightarrow> real" where
  "atan2 y x =
     (if 0 < x then arctan (y / x)
      else if x < 0 then (if 0 \<le> y then arctan (y / x) + pi else arctan (y / x) - pi)
      else if 0 < y then pi / 2
      else if y < 0 then - pi / 2
      else 0)"

text \<open>
  \<^verbatim>\<open>String.prototype.trim\<close>: white space and line terminators are removed at both
  ends. Of these, the code units below 256 are tab, line feed, vertical tab, form feed,
  carriage return, space and no-break space.
\<close>

definition is_white_space :: "char \<Rightarrow> bool" where
  "is_white_space ch = (of_char ch \<in> {9, 10, 11, 12, 13, 32, 160 :: nat})"

definition trim :: "string \<Rightarrow> string" where
  "trim t = rev (dropWhile is_white_space (rev (dropWhile is_white_space t)))"

subsection \<open>State\<close>

text \<open>
  The \<^verbatim>\<open>useState\<close> cells of the older component; \<open>ctx\<close> and \<open>previewCtx\<close> are null
  until the mount effect has stored the two contexts. A handler reads the cells of the
  render it belongs to and its \<^verbatim>\<open>set...\<close> calls take effect together afterwards, so
  each handler is one transition.
\<close>

record canvas_state_v1 =
  isDrawing :: bool
  ctx :: "context2d option"
  startPos :: "point option"
  previewCtx :: "context2d option"

text \<open>
  The newer component adds the text overlay and the roughjs generator
  (\<open>roughGenerator\<close>: whether \<^verbatim>\<open>roughGenerator.current\<close> is set).
\<close>

record canvas_state = canvas_state_v1 +
  textInputValue :: string
  textInputPosition :: "point option"
  roughGenerator :: bool

definition persistentLayer :: "'a canvas_state_v1_scheme \<Rightarrow> raster" where
  "persistentLayer s = (case ctx s of None \<Rightarrow> blank | Some c \<Rightarrow> raster c)"

definition previewLayer :: "'a canvas_state_v1_scheme \<Rightarrow> raster" where
  "previewLayer s = (case previewCtx s of None \<Rightarrow> blank | Some c \<Rightarrow> raster c)"

subsection \<open>The newer component (\<^verbatim>\<open>src/unnamed/part_003\<close>)\<close>

definition drawArrow ::
  "('m, 'z) canvas_props_scheme \<Rightarrow> context2d \<Rightarrow> real \<Rightarrow> real \<Rightarrow> real \<Rightarrow> real \<Rightarrow> context2d" where
  "drawArrow p c fromX fromY toX toY =
     (let headLength = min (lineWidth p * 5) 20;
          angle = atan2 (toY - fromY) (toX - fromX);
          c1 = stroke (lineTo toX toY (moveTo fromX fromY (beginPath c)));
          c2 = moveTo toX toY (beginPath c1);
          c3 = lineTo (toX - headLength * cos (angle - pi / 6))
                      (toY - headLength * sin (angle - pi / 6)) c2;
          c4 = lineTo (toX - headLength * cos (angle + pi / 6))
                      (toY - headLength * sin (angle + pi / 6)) c3;
          c5 = closePath c4
      in fill (c5\<lparr>fillStyle := color p\<rparr>))"

definition applyTextToCanvas :: "rough_props \<Rightarrow> canvas_state \<Rightarrow> canvas_state" where
  "applyTextToCanvas p s =
     (case ctx s of
        None \<Rightarrow> s
      | Some c \<Rightarrow>
          (case textInputPosition s of
             None \<Rightarrow> s
           | Some pos \<Rightarrow>
               if trim (textInputValue s) = [] then s
               else
                 let c1 = c\<lparr>ctx_font := \<lparr>font_px = max (lineWidth p * 3) 14,
                                          font_family = ''sans-serif''\<rparr>\<rparr>;
                     c2 = c1\<lparr>fillStyle := color p\<rparr>;
                     c3 = c2\<lparr>textBaseline := Top\<rparr>;
                     c4 = fillText (textInputValue s) (coord_x pos) (coord_y pos) c3
                 in s\<lparr>ctx := Some c4, textInputValue := [], textInputPosition := None\<rparr>))"

definition startDrawing ::
  "rough_props \<Rightarrow> dom_rect option \<Rightarrow> canvas_state \<Rightarrow> pointer_event \<Rightarrow> canvas_state" where
  "startDrawing p canvasRef s e =
     (case ctx s of
        None \<Rightarrow> s
      | Some c \<Rightarrow>
          (case previewCtx s of
             None \<Rightarrow> s
           | Some pc \<Rightarrow>
               let pt = getCoordinates canvasRef e in
               if drawMode p = Text then
                 (let s1 = (if textInputPosition s \<noteq> None then applyTextToCanvas p s else s)
                  in s1\<lparr>textInputPosition := Some pt\<rparr>)
               else
                 let s1 = s\<lparr>startPos := Some pt\<rparr>;
                     s2 = (if drawMode p = Pen
                           then s1\<lparr>ctx := Some (moveTo (coord_x pt) (coord_y pt) (beginPath c))\<rparr>
                           else s1\<lparr>previewCtx :=
                                     Some (clearRect (width p, height p) 0 0 (width p) (height p) pc)\<rparr>)
                 in s2\<lparr>isDrawing := True\<rparr>))"

definition draw ::
  "rough_props \<Rightarrow> dom_rect option \<Rightarrow> canvas_state \<Rightarrow> pointer_event \<Rightarrow> canvas_state" where
  "draw p canvasRef s e =
     (if \<not> isDrawing s then s
      else case ctx s of
        None \<Rightarrow> s
      | Some c \<Rightarrow>
          (case previewCtx s of
             None \<Rightarrow> s
           | Some pc \<Rightarrow>
               (case startPos s of
                  None \<Rightarrow> s
                | Some sp \<Rightarrow>
                    let pt = getCoordinates canvasRef e;
                        x = coord_x pt;
                        y = coord_y pt;
                        sx = coord_x sp;
                        sy = coord_y sp
                    in
                    if drawMode p = Pen then s\<lparr>ctx := Some (stroke (lineTo x y c))\<rparr>
                    else
                      let pc1 = clearRect (width p, height p) 0 0 (width p) (height p) pc in
                      if enableRough p \<and> roughGenerator s then
                        let filled = \<lparr>opt_stroke = color p, opt_strokeWidth = lineWidth p,
                                      opt_roughness = roughness p,
                                      opt_fill = Some ''transparent''\<rparr>;
                            unfilled = \<lparr>opt_stroke = color p, opt_strokeWidth = lineWidth p,
                                        opt_roughness = roughness p, opt_fill = None\<rparr>;
                            roughShape =
                              (if drawMode p = Rectangle
                               then Some (RoughRectangle sx sy (double_sub x sx) (double_sub y sy)
                                            filled)
                               else if drawMode p = Circle
                               then (let radius = sqrt ((x - sx)\<^sup>2 + (y - sy)\<^sup>2)
                                     in Some (RoughCircle sx sy (radius * 2) filled))
                               else if drawMode p = Line
                               then Some (RoughLine sx sy x y unfilled)
                               else if drawMode p = Arrow
                               then Some (RoughLine sx sy x y unfilled)
                               else None);
                            pc2 =
                              (if drawMode p = Arrow then
                                 (let headLength = min (lineWidth p * 5) 20;
                                      angle = atan2 (y - sy) (x - sx);
                                      pc' = rotate_ctx angle (translate x y (save pc1));
                                      arrowHead =
                                        RoughLinearPath
                                          [(0, 0), (- headLength, - headLength / 2),
                                           (- headLength, headLength / 2), (0, 0)]
                                          \<lparr>opt_stroke = color p, opt_strokeWidth = lineWidth p,
                                           opt_roughness = roughness p,
                                           opt_fill = Some (color p)\<rparr>
                                  in restore (rough_draw arrowHead pc'))
                               else pc1);
                            pc3 =
                              (case roughShape of
                                 None \<Rightarrow> pc2
                               | Some d \<Rightarrow> if drawMode p \<noteq> Arrow then rough_draw d pc2 else pc2)
                        in s\<lparr>previewCtx := Some pc3\<rparr>
                      else
                        let pc2 = beginPath pc1;
                            pc3 =
                              (if drawMode p = Rectangle
                               then stroke (rect sx sy (double_sub x sx) (double_sub y sy) pc2)
                               else if drawMode p = Circle
                               then (let radius = sqrt ((x - sx)\<^sup>2 + (y - sy)\<^sup>2)
                                     in stroke (arc sx sy radius 0 (2 * pi) pc2))
                               else if drawMode p = Line
                               then stroke (lineTo x y (moveTo sx sy pc2))
                               else if drawMode p = Arrow
                               then drawArrow p pc2 sx sy x y
                               else pc2)
                        in s\<lparr>previewCtx := Some pc3\<rparr>)))"

definition stopDrawing :: "rough_props \<Rightarrow> canvas_state \<Rightarrow> canvas_state" where
  "stopDrawing p s =
     (if \<not> isDrawing s then s
      else case ctx s of
        None \<Rightarrow> s
      | Some c \<Rightarrow>
          (case previewCtx s of
             None \<Rightarrow> s
           | Some pc \<Rightarrow>
               (case startPos s of
                  None \<Rightarrow> s
                | Some sp \<Rightarrow>
                    let s1 = (if drawMode p = Pen then s\<lparr>ctx := Some (closePath c)\<rparr>
                              else s\<lparr>ctx := Some (drawImage_canvas pc 0 0 c),
                                     previewCtx :=
                                       Some (clearRect (width p, height p) 0 0 (width p) (height p) pc)\<rparr>)
                    in s1\<lparr>isDrawing := False, startPos := None\<rparr>)))"

definition handleTextInputKeyDown ::
  "rough_props \<Rightarrow> canvas_state \<Rightarrow> string \<Rightarrow> bool \<Rightarrow> canvas_state" where
  "handleTextInputKeyDown p s key shiftKey =
     (if key = ''Enter'' \<and> \<not> shiftKey then applyTextToCanvas p s
      else if key = ''Escape'' then s\<lparr>textInputValue := [], textInputPosition := None\<rparr>
      else s)"


text \<open>
  The \<^verbatim>\<open>onload\<close> callback of a pasted image (\<^verbatim>\<open>handlePaste\<close>, the same in both
  components): where the image goes and how large it is drawn. A division by zero
  makes the drawn size non-finite in the source, and \<^verbatim>\<open>drawImage\<close> then draws
  nothing: the placement is \<open>None\<close>.
\<close>

definition paste_placement ::
  "('m, 'z) canvas_props_scheme \<Rightarrow> html_image \<Rightarrow> (real \<times> real \<times> real \<times> real) option" where
  "paste_placement p img =
     (let x = max 0 ((width p - img_width img) / 2);
          y = max 0 ((height p - img_height img) / 2);
          drawWidth = img_width img;
          drawHeight = img_height img;
          byWidth =
            (if drawWidth > width p - 20 then
               (if drawWidth = 0 then None
                else let scale = (width p - 20) / drawWidth
                     in Some (drawWidth * scale, drawHeight * scale))
             else Some (drawWidth, drawHeight))
      in case byWidth of
           None \<Rightarrow> None
         | Some (drawWidth1, drawHeight1) \<Rightarrow>
             if drawHeight1 > height p - 20 then
               (if drawHeight1 = 0 then None
                else let scale = (height p - 20) / drawHeight1
                     in Some (x, y, drawWidth1 * scale, drawHeight1 * scale))
             else Some (x, y, drawWidth1, drawHeight1))"

definition img_onload :: "('m, 'z) canvas_props_scheme \<Rightarrow> context2d \<Rightarrow> html_image \<Rightarrow> context2d" where
  "img_onload p c img =
     (case paste_placement p img of
        None \<Rightarrow> c
      | Some (x, y, drawWidth, drawHeight) \<Rightarrow> drawImage img x y drawWidth drawHeight c)"

text \<open>
  A paste event carries \<^verbatim>\<open>clipboardData.items\<close> (or no clipboard data); an item has a
  MIME type and \<^verbatim>\<open>getAsFile()\<close>, here the image the file decodes to, or null.
  \<^verbatim>\<open>type.indexOf('image') !== -1\<close> is a substring test. The loop takes the first item
  of an image type that has a file.
\<close>

record clipboard_item =
  item_type :: string
  getAsFile :: "html_image option"

fun has_substring :: "string \<Rightarrow> string \<Rightarrow> bool" where
  "has_substring pat [] = (pat = [])"
| "has_substring pat (ch # t) = (take (length pat) (ch # t) = pat \<or> has_substring pat t)"

fun first_image :: "clipboard_item list \<Rightarrow> html_image option" where
  "first_image [] = None"
| "first_image (it # its) =
     (if has_substring ''image'' (item_type it)
      then (case getAsFile it of None \<Rightarrow> first_image its | Some img \<Rightarrow> Some img)
      else first_image its)"

text \<open>
  \<^verbatim>\<open>handlePaste\<close> reads \<open>ctx\<close> of the render it was created in; reading the file and
  decoding the image are taken to succeed, and the toasts are left out.
\<close>

definition handlePaste ::
  "('m, 'z) canvas_props_scheme \<Rightarrow> dom_rect option \<Rightarrow> 'a canvas_state_v1_scheme
    \<Rightarrow> clipboard_item list option \<Rightarrow> 'a canvas_state_v1_scheme" where
  "handlePaste p canvasRef s clipboardItems =
     (case ctx s of
        None \<Rightarrow> s
      | Some c \<Rightarrow>
          (case canvasRef of
             None \<Rightarrow> s
           | Some r \<Rightarrow>
               (case clipboardItems of
                  None \<Rightarrow> s
                | Some items \<Rightarrow>
                    (case first_image items of
                       None \<Rightarrow> s
                     | Some img \<Rightarrow> s\<lparr>ctx := Some (img_onload p c img)\<rparr>))))"

text \<open>
  The cells of the first render, as \<^verbatim>\<open>useState\<close> and \<^verbatim>\<open>useRef\<close> initialise them.
  The mount effect has the dependency list \<^verbatim>\<open>[]\<close>: it runs once, after the first
  render, and the listener it adds to the window is the \<^verbatim>\<open>handlePaste\<close> of that
  render. Its \<^verbatim>\<open>setCtx\<close> reaches the later renders, not this closure. So a paste event
  runs \<^verbatim>\<open>handlePaste\<close> on the cells of the first render; what it draws, it draws on
  the context it finds there.
\<close>

definition first_render :: canvas_state where
  "first_render =
     \<lparr>isDrawing = False, ctx = None, startPos = None, previewCtx = None,
      textInputValue = [], textInputPosition = None, roughGenerator = False\<rparr>"

definition on_paste ::
  "rough_props \<Rightarrow> dom_rect option \<Rightarrow> canvas_state \<Rightarrow> clipboard_item list option
    \<Rightarrow> canvas_state" where
  "on_paste p canvasRef s clipboardItems =
     (case ctx (handlePaste p canvasRef first_render clipboardItems) of
        None \<Rightarrow> s
      | Some c \<Rightarrow> s\<lparr>ctx := Some c\<rparr>)"

subsection \<open>The older component (\<^verbatim>\<open>src/components/paint/canvas.tsx\<close>)\<close>

definition startDrawing_v1 ::
  "draw_mode_v1 canvas_props \<Rightarrow> dom_rect option \<Rightarrow> 'a canvas_state_v1_scheme \<Rightarrow> pointer_event
    \<Rightarrow> 'a canvas_state_v1_scheme" where
  "startDrawing_v1 p canvasRef s e =
     (case ctx s of
        None \<Rightarrow> s
      | Some c \<Rightarrow>
          (case previewCtx s of
             None \<Rightarrow> s
           | Some pc \<Rightarrow>
               let pt = getCoordinates canvasRef e;
                   s1 = s\<lparr>startPos := Some pt\<rparr>;
                   s2 = (if drawMode p = Pen_v1
                         then s1\<lparr>ctx := Some (moveTo (coord_x pt) (coord_y pt) (beginPath c))\<rparr>
                         else s1\<lparr>previewCtx :=
                                   Some (clearRect (width p, height p) 0 0 (width p) (height p) pc)\<rparr>)
               in s2\<lparr>isDrawing := True\<rparr>))"

definition draw_v1 ::
  "draw_mode_v1 canvas_props \<Rightarrow> dom_rect option \<Rightarrow> 'a canvas_state_v1_scheme \<Rightarrow> pointer_event
    \<Rightarrow> 'a canvas_state_v1_scheme" where
  "draw_v1 p canvasRef s e =
     (if \<not> isDrawing s then s
      else case ctx s of
        None \<Rightarrow> s
      | Some c \<Rightarrow>
          (case previewCtx s of
             None \<Rightarrow> s
           | Some pc \<Rightarrow>
               (case startPos s of
                  None \<Rightarrow> s
                | Some sp \<Rightarrow>
                    let pt = getCoordinates canvasRef e;
                        x = coord_x pt;
                        y = coord_y pt;
                        sx = coord_x sp;
                        sy = coord_y sp
                    in
                    if drawMode p = Pen_v1 then s\<lparr>ctx := Some (stroke (lineTo x y c))\<rparr>
                    else
                      let pc1 = clearRect (width p, height p) 0 0 (width p) (height p) pc;
                          pc2 = beginPath pc1;
                          pc3 =
                            (if drawMode p = Rectangle_v1
                             then rect sx sy (double_sub x sx) (double_sub y sy) pc2
                             else if drawMode p = Circle_v1
                             then (let radius = sqrt ((x - sx)\<^sup>2 + (y - sy)\<^sup>2)
                                   in arc sx sy radius 0 (2 * pi) pc2)
                             else if drawMode p = Line_v1
                             then lineTo x y (moveTo sx sy pc2)
                             else pc2)
                      in s\<lparr>previewCtx := Some (stroke pc3)\<rparr>)))"

definition stopDrawing_v1 ::
  "draw_mode_v1 canvas_props \<Rightarrow> 'a canvas_state_v1_scheme \<Rightarrow> 'a canvas_state_v1_scheme" where
  "stopDrawing_v1 p s =
     (if \<not> isDrawing s then s
      else case ctx s of
        None \<Rightarrow> s
      | Some c \<Rightarrow>
          (case previewCtx s of
             None \<Rightarrow> s
           | Some pc \<Rightarrow>
               (case startPos s of
                  None \<Rightarrow> s
                | Some sp \<Rightarrow>
                    let s1 = (if drawMode p = Pen_v1 then s\<lparr>ctx := Some (closePath c)\<rparr>
                              else s\<lparr>ctx := Some (drawImage_canvas pc 0 0 c),
                                     previewCtx :=
                                       Some (clearRect (width p, height p) 0 0 (width p) (height p) pc)\<rparr>)
                    in s1\<lparr>isDrawing := False, startPos := None\<rparr>)))"

section \<open>The page (\<^verbatim>\<open>src/unnamed/part_001\<close>)\<close>

text \<open>
  The page holds the ref to the main canvas. \<open>getContext\<close> is what
  \<^verbatim>\<open>canvas.getContext("2d")\<close> returns: the context that carries the persistent layer,
  or null.
\<close>

record canvas_element =
  canvas_width :: real
  canvas_height :: real
  getContext :: "context2d option"

text \<open>\<open>confirmed\<close> is the answer of the \<^verbatim>\<open>confirm\<close> dialog, asked only when the canvas exists.\<close>

definition handleClear :: "bool \<Rightarrow> canvas_element option \<Rightarrow> canvas_element option" where
  "handleClear confirmed canvasRef =
     (case canvasRef of
        None \<Rightarrow> None
      | Some canvas \<Rightarrow>
          if confirmed then
            (case getContext canvas of
               None \<Rightarrow> Some canvas
             | Some context \<Rightarrow>
                 Some (canvas\<lparr>getContext :=
                   Some (clearRect (canvas_width canvas, canvas_height canvas) 0 0
                           (canvas_width canvas) (canvas_height canvas) context)\<rparr>))
          else Some canvas)"


section \<open>Gestures, and the states used as examples\<close>

text \<open>
  A run of pointer-moves; each one comes with the bounding rectangle the canvas has at
  that moment.
\<close>

definition pointer_moves ::
  "rough_props \<Rightarrow> canvas_state \<Rightarrow> (dom_rect option \<times> pointer_event) list \<Rightarrow> canvas_state" where
  "pointer_moves p s ms = foldl (\<lambda>s' (canvasRef, e). draw p canvasRef s' e) s ms"

text \<open>
  Two states of one drawing session: they agree on the cells of the component and on the
  main context, and their preview contexts stroke in the same style under the same
  transform.
\<close>

definition same_session :: "canvas_state \<Rightarrow> canvas_state \<Rightarrow> bool" where
  "same_session s s' =
     (isDrawing s = isDrawing s' \<and> ctx s = ctx s' \<and> startPos s = startPos s'
      \<and> textInputValue s = textInputValue s' \<and> textInputPosition s = textInputPosition s'
      \<and> roughGenerator s = roughGenerator s'
      \<and> (case previewCtx s of
            None \<Rightarrow> previewCtx s' = None
          | Some a \<Rightarrow>
              (case previewCtx s' of
                 None \<Rightarrow> False
               | Some b \<Rightarrow> strokeStyle a = strokeStyle b \<and> ctx_lineWidth a = ctx_lineWidth b
                            \<and> transform a = transform b)))"

text \<open>The default props of the newer component, and of the older one.\<close>

definition default_props :: rough_props where
  "default_props =
     \<lparr>width = 800, height = 600, color = ''#000000'', lineWidth = 5, drawMode = Pen,
      roughness = 1, enableRough = True\<rparr>"

definition default_props_v1 :: "draw_mode_v1 canvas_props" where
  "default_props_v1 =
     \<lparr>width = 800, height = 600, color = ''#000000'', lineWidth = 5, drawMode = Pen_v1\<rparr>"

text \<open>
  A context as the mount effect leaves it, the state of the component before and after
  that effect, and a main canvas that carries one stroke.
\<close>

definition fresh_context :: context2d where
  "fresh_context =
     \<lparr>raster = blank, path = [], strokeStyle = ''#000000'', ctx_lineWidth = 5,
      fillStyle = ''#000000'', ctx_font = \<lparr>font_px = 10, font_family = ''sans-serif''\<rparr>,
      textBaseline = Alphabetic, transform = [], saved = []\<rparr>"

definition unmounted :: canvas_state where
  "unmounted =
     \<lparr>isDrawing = False, ctx = None, startPos = None, previewCtx = None,
      textInputValue = [], textInputPosition = None, roughGenerator = False\<rparr>"

definition mounted :: canvas_state where
  "mounted =
     \<lparr>isDrawing = False, ctx = Some fresh_context, startPos = None,
      previewCtx = Some fresh_context,
      textInputValue = [], textInputPosition = None, roughGenerator = True\<rparr>"

definition one_stroke :: raster where
  "one_stroke = [StrokePaint [PMoveTo 1 1, PLineTo 2 2] ''#000000'' 5 []]"

definition drawn_canvas :: canvas_element where
  "drawn_canvas =
     \<lparr>canvas_width = 800, canvas_height = 600,
      getContext = Some (fresh_context\<lparr>raster := one_stroke\<rparr>)\<rparr>"

section \<open>Geometry of the rendered shapes\<close>

text \<open>
  The rectangle a paint shows, as the arguments \<open>(x, y, w, h)\<close> it was drawn with, and
  the box these span: the corners are \<open>(x, y)\<close> and \<open>(x + w, y + h)\<close>, whatever the
  signs of \<open>w\<close> and \<open>h\<close>, the sums taken on doubles.
\<close>

definition paint_rect :: "paint \<Rightarrow> (real \<times> real \<times> real \<times> real) option" where
  "paint_rect q =
     (case q of
        StrokePaint [PRect x y w h] st lw tf \<Rightarrow> Some (x, y, w, h)
      | RoughPaint (RoughRectangle x y w h opts) tf \<Rightarrow> Some (x, y, w, h)
      | _ \<Rightarrow> None)"

definition rect_box :: "real \<times> real \<times> real \<times> real \<Rightarrow> real \<times> real \<times> real \<times> real" where
  "rect_box r =
     (case r of (x, y, w, h) \<Rightarrow>
        (min x (double_add x w), min y (double_add y h),
         max x (double_add x w), max y (double_add y h)))"

text \<open>
  Two coordinates of a drag that the host subtracts without rounding: both are doubles,
  and so are their two differences.
\<close>

definition exact_drag :: "real \<Rightarrow> real \<Rightarrow> bool" where
  "exact_drag u v =
     (double_round u = u \<and> double_round v = v
      \<and> double_sub v u = v - u \<and> double_sub u v = u - v)"



text \<open>
  The point at distance \<open>len\<close> from the tip \<open>c\<close> of an arrow from \<open>a\<close>, in the
  direction that makes the angle \<open>ang\<close> with the direction from \<open>c\<close> back to \<open>a\<close>.
  An arrowhead of length \<open>h\<close> and half-angle \<open>\<alpha>\<close> has its back points at
  \<open>head_point a c h (- \<alpha>)\<close> and \<open>head_point a c h \<alpha>\<close>.
\<close>

definition head_point :: "real \<times> real \<Rightarrow> real \<times> real \<Rightarrow> real \<Rightarrow> real \<Rightarrow> real \<times> real" where
  "head_point a c len ang =
     (let d = sqrt ((fst c - fst a)\<^sup>2 + (snd c - snd a)\<^sup>2);
          ux = (fst c - fst a) / d;
          uy = (snd c - snd a) / d
      in (fst c - len * (ux * cos ang - uy * sin ang),
          snd c - len * (ux * sin ang + uy * cos ang)))"

text \<open>
  Further examples: a canvas whose corner is the corner of the viewport, tools, states
  in the middle of a gesture or of a text entry, and pasted images.
\<close>

definition canvas_at_origin :: "dom_rect option" where
  "canvas_at_origin = Some \<lparr>rect_left = 0, rect_top = 0\<rparr>"

definition arrow_props :: rough_props where
  "arrow_props = default_props\<lparr>drawMode := Arrow\<rparr>"

definition drawing_from_origin :: canvas_state where
  "drawing_from_origin =
     mounted\<lparr>isDrawing := True, startPos := Some \<lparr>coord_x = 0, coord_y = 0\<rparr>\<rparr>"






definition rectangle_props :: rough_props where
  "rectangle_props = default_props\<lparr>drawMode := Rectangle\<rparr>"

definition text_props :: rough_props where
  "text_props = default_props\<lparr>drawMode := Text\<rparr>"

definition whitespace_pending :: canvas_state where
  "whitespace_pending =
     mounted\<lparr>textInputValue := ''  '', textInputPosition := Some \<lparr>coord_x = 1, coord_y = 1\<rparr>\<rparr>"

definition hi_pending :: canvas_state where
  "hi_pending =
     mounted\<lparr>textInputValue := ''Hi'', textInputPosition := Some \<lparr>coord_x = 1, coord_y = 1\<rparr>\<rparr>"

definition small_image :: html_image where
  "small_image = \<lparr>img_width = 100, img_height = 50, img_src = ''data:image/png''\<rparr>"

text \<open>The doubles next to 0.1 and to 0.4, which is what the literals are in the host.\<close>

definition point_one :: real where
  "point_one = double_round (1 / 10)"

definition point_four :: real where
  "point_four = double_round (4 / 10)"

definition png_item :: clipboard_item where
  "png_item = \<lparr>item_type = ''image/png'', getAsFile = Some small_image\<rparr>"

section \<open>Rasters and pixels\<close>

lemma pixels_blank: "pixels R blank = transparent"
  by (simp add: pixels_def blank_def)

lemma pixels_snoc: "pixels R (ps @ [q]) = paint_on R q (pixels R ps)"
  by (simp add: pixels_def)

lemma source_over_clear: "source_over clear_pixel d = d"
  by (cases d) (simp add: source_over_def clear_pixel_def)


lemma over_transparent: "over transparent b = b"
  by (simp add: over_def transparent_def source_over_clear)

lemma shift_zero: "shift 0 0 b = b"
  by (simp add: shift_def)

lemma paint_layer_zero: "paint_on R (LayerPaint src 0 0) b = over (pixels R src) b"
  by (simp add: shift_zero pixels_def)

section \<open>Rounding\<close>

lemma binade_eq:
  assumes "2 powr (of_int k) \<le> \<bar>x\<bar>" and "\<bar>x\<bar> < 2 powr (of_int k + 1)"
  shows "binade x = k"
proof -
  have "0 < (2 :: real) powr (of_int k)" by simp
  with assms(1) have "0 < \<bar>x\<bar>" by linarith
  then show ?thesis
    unfolding binade_def using assms by (simp add: floor_log_eq_powr_iff)
qed

lemma double_round_in_binade:
  assumes "2 powr (of_int k) \<le> \<bar>x\<bar>" and "\<bar>x\<bar> < 2 powr (of_int k + 1)"
  shows "double_round x =
           of_int (round_half_even (x / 2 powr (of_int k - 52))) * 2 powr (of_int k - 52)"
proof -
  have "0 < (2 :: real) powr (of_int k)" by simp
  with assms(1) have "x \<noteq> 0" by auto
  then show ?thesis
    by (simp add: double_round_def Let_def binade_eq [OF assms])
qed

lemma round_half_even_int: "round_half_even (of_int m) = m"
  by (simp add: round_half_even_def)

lemma double_round_int:
  assumes "\<bar>n\<bar> < 2 ^ 53"
  shows "double_round (of_int n) = of_int n"
proof (cases "n = 0")
  case True
  then show ?thesis by (simp add: double_round_def)
next
  case False
  define x where "x = \<bar>real_of_int n\<bar>"
  define k where "k = binade (of_int n)"
  have x1: "1 \<le> x" using False by (simp add: x_def)
  have x2: "x < 2 powr 53" using assms by (simp add: x_def)
  have "0 \<le> log 2 x" using x1 by simp
  then have k0: "0 \<le> k" by (simp add: k_def binade_def x_def)
  have "log 2 x < 53" using x1 x2 by (simp add: log_less_iff)
  then have "\<lfloor>log 2 x\<rfloor> < 53" by (simp add: floor_less_iff)
  then have k52: "k \<le> 52" by (simp add: k_def binade_def x_def)
  define j where "j = nat (52 - k)"
  have kj: "real_of_int k - 52 = - real j" using k52 by (simp add: j_def)
  have ulp: "2 powr (real_of_int k - 52) = 1 / 2 ^ j"
    by (simp add: kj powr_minus_divide powr_realpow)
  have q: "real_of_int n / (1 / 2 ^ j) = of_int (n * 2 ^ j)" by simp
  have "double_round (of_int n) =
      of_int (round_half_even (of_int n / (1 / 2 ^ j))) * (1 / 2 ^ j)"
    using False by (simp add: double_round_def Let_def k_def [symmetric] ulp)
  also have "\<dots> = of_int (n * 2 ^ j) * (1 / 2 ^ j)"
    by (simp only: q round_half_even_int)
  also have "\<dots> = of_int n" by simp
  finally show ?thesis .
qed

lemma exact_drag_int:
  assumes "\<bar>m\<bar> < 2 ^ 52" and "\<bar>n\<bar> < 2 ^ 52"
  shows "exact_drag (of_int m) (of_int n)"
proof -
  have a: "\<bar>m\<bar> < 2 ^ 53" "\<bar>n\<bar> < 2 ^ 53" "\<bar>n - m\<bar> < 2 ^ 53" "\<bar>m - n\<bar> < 2 ^ 53"
    using assms by simp_all
  have "double_round (of_int (n - m)) = of_int (n - m)"
    "double_round (of_int (m - n)) = of_int (m - n)"
    using a by (simp_all only: double_round_int)
  then show ?thesis
    using a by (simp add: exact_drag_def double_sub_def double_round_int)
qed

lemma double_round_below_one:
  assumes "1 / 2 ^ j \<le> \<bar>x\<bar>" and "\<bar>x\<bar> < 2 / 2 ^ j"
  shows "double_round x = of_int (round_half_even (x * 2 ^ (j + 52))) / 2 ^ (j + 52)"
proof -
  have a: "2 powr (of_int (- int j)) \<le> \<bar>x\<bar>"
    using assms(1) by (simp add: powr_minus_divide powr_realpow)
  have "2 powr (of_int (- int j) + 1) = 2 powr (of_int (- int j)) * 2 powr (1 :: real)"
    by (rule powr_add)
  then have b: "\<bar>x\<bar> < 2 powr (of_int (- int j) + 1)"
    using assms(2) by (simp add: powr_minus_divide powr_realpow)
  have "of_int (- int j) - 52 = - real (j + 52)" by simp
  then have u: "2 powr (of_int (- int j) - 52 :: real) = 1 / 2 ^ (j + 52)"
    by (simp only: powr_minus_divide powr_realpow zero_less_numeral)
  show ?thesis
    unfolding double_round_in_binade [OF a b] u by simp
qed

lemma point_one_value: "point_one = 7205759403792794 / 2 ^ 56"
  unfolding point_one_def
  by (subst double_round_below_one [where j = 4]) (simp_all add: round_half_even_def Let_def)

lemma point_four_value: "point_four = 7205759403792794 / 2 ^ 54"
  unfolding point_four_def
  by (subst double_round_below_one [where j = 2]) (simp_all add: round_half_even_def Let_def)

lemma point_one_minus_four: "double_sub point_one point_four = - 5404319552844596 / 2 ^ 54"
  unfolding double_sub_def point_one_value point_four_value
  by (subst double_round_below_one [where j = 2]) (simp_all add: round_half_even_def Let_def)

lemma point_four_minus_one: "double_sub point_four point_one = 5404319552844596 / 2 ^ 54"
  unfolding double_sub_def point_one_value point_four_value
  by (subst double_round_below_one [where j = 2]) (simp_all add: round_half_even_def Let_def)

lemma point_four_and_back:
  "double_add point_four (double_sub point_one point_four) = 7205759403792792 / 2 ^ 56"
proof -
  have "double_add point_four (double_sub point_one point_four) =
      double_add point_four (- 5404319552844596 / 2 ^ 54)"
    by (simp only: point_one_minus_four)
  also have "\<dots> = double_add (7205759403792794 / 2 ^ 54) (- 5404319552844596 / 2 ^ 54)"
    by (simp only: point_four_value)
  also have "\<dots> = 7205759403792792 / 2 ^ 56"
    unfolding double_add_def
    by (subst double_round_below_one [where j = 4]) (simp_all add: round_half_even_def Let_def)
  finally show ?thesis .
qed

lemma point_one_and_forth:
  "double_add point_one (double_sub point_four point_one) = point_four"
proof -
  have "double_add point_one (double_sub point_four point_one) =
      double_add point_one (5404319552844596 / 2 ^ 54)"
    by (simp only: point_four_minus_one)
  also have "\<dots> = double_add (7205759403792794 / 2 ^ 56) (5404319552844596 / 2 ^ 54)"
    by (simp only: point_one_value)
  also have "\<dots> = 7205759403792794 / 2 ^ 54"
    unfolding double_add_def
    by (subst double_round_below_one [where j = 2]) (simp_all add: round_half_even_def Let_def)
  also have "\<dots> = point_four"
    by (simp only: point_four_value)
  finally show ?thesis .
qed

lemma double_sub_int:
  assumes "\<bar>m - n\<bar> < 2 ^ 53"
  shows "double_sub (of_int m) (of_int n) = of_int (m - n)"
  using double_round_int [OF assms] by (simp add: double_sub_def)

lemma double_sub_zero: "double_sub 0 0 = 0"
  by (simp add: double_sub_def double_round_def)

lemma double_add_zero: "double_add 0 0 = 0"
  by (simp add: double_add_def double_round_def)

section \<open>Shape gestures\<close>

lemmas canvas_api_defs =
  beginPath_def moveTo_def lineTo_def rect_def arc_def closePath_def stroke_def fill_def
  fillText_def clearRect_def drawImage_canvas_def save_def restore_def translate_def
  rotate_ctx_def rough_draw_def drawArrow_def



lemma draw_keeps_session:
  assumes "same_session s s1" "isDrawing s1" "ctx s1 = Some c" "startPos s1 = Some sp"
    "previewCtx s1 = Some pc" "drawMode p \<noteq> Pen"
  shows "same_session (draw p cr s e) s1"
  using assms
  by (auto simp: same_session_def draw_def Let_def canvas_api_defs split: option.splits)

lemma draw_preview_only_last:
  assumes "same_session s s1" "isDrawing s1" "ctx s1 = Some c" "startPos s1 = Some sp"
    "previewCtx s1 = Some pc" "drawMode p \<noteq> Pen"
  shows "previewLayer (draw p cr s e) = previewLayer (draw p cr s1 e)"
  using assms
  by (auto simp: same_session_def draw_def Let_def canvas_api_defs previewLayer_def blank_def split: option.splits)


lemma same_session_refl: "same_session s s"
  by (simp add: same_session_def split: option.splits)

lemma moves_keep_session:
  assumes "isDrawing s1" "ctx s1 = Some c" "startPos s1 = Some sp"
    "previewCtx s1 = Some pc" "drawMode p \<noteq> Pen"
  shows "same_session (pointer_moves p s1 ms) s1"
proof (induction ms rule: rev_induct)
  case Nil
  show ?case by (simp add: pointer_moves_def same_session_refl)
next
  case (snoc m ms)
  obtain cr e where m: "m = (cr, e)" by (cases m)
  have "pointer_moves p s1 (ms @ [m]) = draw p cr (pointer_moves p s1 ms) e"
    by (simp add: pointer_moves_def m)
  with snoc assms show ?case
    by (simp add: draw_keeps_session)
qed

lemma startDrawing_shape:
  assumes "ctx s = Some c" "previewCtx s = Some pc" "drawMode p \<noteq> Pen" "drawMode p \<noteq> Text"
  shows "startDrawing p cr s e =
           s\<lparr>isDrawing := True, startPos := Some (getCoordinates cr e),
             previewCtx := Some (pc\<lparr>raster := blank\<rparr>)\<rparr>"
  using assms by (simp add: startDrawing_def Let_def clearRect_def)

lemma stopDrawing_shape:
  assumes "isDrawing s" "ctx s = Some c" "previewCtx s = Some pc" "startPos s = Some sp"
    "drawMode p \<noteq> Pen"
  shows "stopDrawing p s =
           s\<lparr>isDrawing := False, startPos := None,
             ctx := Some (c\<lparr>raster := raster c @ [LayerPaint (raster pc) 0 0]\<rparr>),
             previewCtx := Some (pc\<lparr>raster := blank\<rparr>)\<rparr>"
  using assms by (simp add: stopDrawing_def Let_def clearRect_def drawImage_canvas_def)








section \<open>Stray events\<close>

text \<open>
  C7. A pointer-move that arrives while no drawing session is active, and a pointer-down,
  pointer-move or pointer-up that arrives while one of the two contexts is not yet
  available, return the state they were given: persistent layer, preview layer and
  session state are all unchanged, and nothing fails.
\<close>

theorem stray_events_are_noops:
  "(\<not> isDrawing s \<longrightarrow> draw p canvasRef s e = s)
   \<and> (ctx s = None \<or> previewCtx s = None \<longrightarrow>
        startDrawing p canvasRef s e = s \<and> draw p canvasRef s e = s \<and> stopDrawing p s = s)"
  by (auto simp: draw_def startDrawing_def stopDrawing_def split: option.splits)

theorem stray_events_are_noops_witness:
  "\<not> isDrawing mounted
   \<and> draw default_props None mounted (MouseEvent 3 4) = mounted
   \<and> ctx unmounted = None
   \<and> startDrawing default_props None unmounted (MouseEvent 3 4) = unmounted
   \<and> draw default_props None unmounted (MouseEvent 3 4) = unmounted
   \<and> stopDrawing default_props unmounted = unmounted"
proof -
  have h1: "\<not> isDrawing mounted" by (simp add: mounted_def)
  have h2: "ctx unmounted = None" by (simp add: unmounted_def)
  show ?thesis
    using h1 h2
      stray_events_are_noops [of mounted default_props None "MouseEvent 3 4"]
      stray_events_are_noops [of unmounted default_props None "MouseEvent 3 4"]
    by simp
qed

section \<open>Clearing the canvas\<close>

text \<open>
  C8. When the user confirms, \<^verbatim>\<open>handleClear\<close> leaves the persistent raster blank, every
  pixel transparent, whatever had been committed before; when the user declines, the
  canvas is as it was. The clear is behind the confirmation dialog on every path.
\<close>

theorem clear_resets_persistent:
  assumes "getContext canvas = Some context"
  shows "(\<exists>context'. handleClear True (Some canvas) = Some (canvas\<lparr>getContext := Some context'\<rparr>)
            \<and> raster context' = blank \<and> pixels R (raster context') = transparent)
         \<and> handleClear False canvasRef = canvasRef"
  using assms
  by (auto simp: handleClear_def clearRect_def pixels_blank split: option.splits)

theorem clear_resets_persistent_witness:
  "getContext drawn_canvas = Some (fresh_context\<lparr>raster := one_stroke\<rparr>)
   \<and> (\<exists>context'. handleClear True (Some drawn_canvas) =
                     Some (drawn_canvas\<lparr>getContext := Some context'\<rparr>)
          \<and> raster context' = blank \<and> pixels (\<lambda>q. transparent) (raster context') = transparent)
   \<and> handleClear False (Some drawn_canvas) = Some drawn_canvas"
proof -
  have h: "getContext drawn_canvas = Some (fresh_context\<lparr>raster := one_stroke\<rparr>)"
    by (simp add: drawn_canvas_def)
  show ?thesis
    using h clear_resets_persistent [OF h, of "\<lambda>q. transparent" "Some drawn_canvas"] by simp
qed

section \<open>The Move tool\<close>

text \<open>
  C9. A complete gesture with the Move tool (pointer-down, any pointer-moves, pointer-up)
  leaves every pixel of the persistent layer as it was before the pointer-down: the
  gesture clears the preview, no branch renders into it, and the pointer-up draws a blank
  preview onto the persistent layer.
\<close>

theorem move_tool_gesture_is_inert:
  assumes "drawMode p = Move"
  shows "let s1 = startDrawing p canvasRef0 s e0;
             sk = pointer_moves p s1 ms;
             s' = stopDrawing p sk
         in pixels R (persistentLayer s') = pixels R (persistentLayer s)
          \<and> (ctx s \<noteq> None \<and> previewCtx s \<noteq> None \<longrightarrow>
               previewLayer sk = blank
             \<and> persistentLayer s' = persistentLayer s @ [LayerPaint blank 0 0]
             \<and> previewLayer s' = blank)"
proof (cases "ctx s = None \<or> previewCtx s = None")
  case True
  then have s1: "startDrawing p canvasRef0 s e0 = s"
    by (auto simp: startDrawing_def split: option.splits)
  have dr: "draw p cr s e = s" for cr e
    using True by (auto simp: draw_def split: option.splits)
  have mv: "pointer_moves p s ms = s"
    by (induction ms rule: rev_induct) (auto simp: pointer_moves_def dr)
  have st: "stopDrawing p s = s"
    using True by (auto simp: stopDrawing_def split: option.splits)
  show ?thesis using True by (auto simp: Let_def s1 mv st)
next
  case False
  then obtain c pc where c: "ctx s = Some c" and pc: "previewCtx s = Some pc" by auto
  define s1 where "s1 = startDrawing p canvasRef0 s e0"
  define sk where "sk = pointer_moves p s1 ms"
  have np: "drawMode p \<noteq> Pen" and nt: "drawMode p \<noteq> Text"
    using assms by auto
  have s1: "s1 = s\<lparr>isDrawing := True, startPos := Some (getCoordinates canvasRef0 e0),
                    previewCtx := Some (pc\<lparr>raster := blank\<rparr>)\<rparr>"
    unfolding s1_def using c pc np nt by (rule startDrawing_shape)
  have a1: "isDrawing s1" "ctx s1 = Some c" "startPos s1 = Some (getCoordinates canvasRef0 e0)"
    "previewCtx s1 = Some (pc\<lparr>raster := blank\<rparr>)"
    using c by (simp_all add: s1)
  have ss: "same_session sk s1"
    unfolding sk_def using a1 np by (rule moves_keep_session)
  obtain pck where pck: "previewCtx sk = Some pck"
    using ss a1(4) by (auto simp: same_session_def split: option.splits)
  have ak: "isDrawing sk" "ctx sk = Some c" "startPos sk = Some (getCoordinates canvasRef0 e0)"
    using ss a1 by (simp_all add: same_session_def)
  have step: "previewLayer (draw p cr s2 e) = blank" if "previewLayer s2 = blank" for cr e s2
    using that assms
    by (auto simp: draw_def Let_def previewLayer_def clearRect_def beginPath_def blank_def
        split: option.splits)
  have blank_k: "previewLayer sk = blank"
    unfolding sk_def
  proof (induction ms rule: rev_induct)
    case Nil
    show ?case by (simp add: pointer_moves_def previewLayer_def s1)
  next
    case (snoc m ms)
    obtain cr e where m: "m = (cr, e)" by (cases m)
    have "pointer_moves p s1 (ms @ [m]) = draw p cr (pointer_moves p s1 ms) e"
      by (simp add: pointer_moves_def m)
    with snoc show ?case by (simp add: step)
  qed
  have stop: "stopDrawing p sk =
      sk\<lparr>isDrawing := False, startPos := None,
         ctx := Some (c\<lparr>raster := raster c @ [LayerPaint (raster pck) 0 0]\<rparr>),
         previewCtx := Some (pck\<lparr>raster := blank\<rparr>)\<rparr>"
    using ak(1,2) pck ak(3) np by (rule stopDrawing_shape)
  have rk: "raster pck = blank"
    using blank_k by (simp add: previewLayer_def pck)
  have g2: "persistentLayer (stopDrawing p sk) = persistentLayer s @ [LayerPaint blank 0 0]"
    by (simp add: stop persistentLayer_def c rk)
  have g3: "pixels R (persistentLayer (stopDrawing p sk)) = pixels R (persistentLayer s)"
    by (simp only: g2 pixels_snoc paint_layer_zero pixels_blank over_transparent)
  have g4: "previewLayer (stopDrawing p sk) = blank"
    by (simp add: stop previewLayer_def)
  show ?thesis
    unfolding Let_def using blank_k g2 g3 g4 by (simp add: s1_def sk_def)
qed

theorem move_tool_gesture_is_inert_witness:
  "drawMode (default_props\<lparr>drawMode := Move\<rparr>) = Move
   \<and> (let s1 = startDrawing (default_props\<lparr>drawMode := Move\<rparr>) canvas_at_origin mounted (MouseEvent 10 10);
          sk = pointer_moves (default_props\<lparr>drawMode := Move\<rparr>) s1 [(canvas_at_origin, MouseEvent 30 20)];
          s' = stopDrawing (default_props\<lparr>drawMode := Move\<rparr>) sk
      in pixels (\<lambda>q. transparent) (persistentLayer s') =
           pixels (\<lambda>q. transparent) (persistentLayer mounted)
       \<and> (ctx mounted \<noteq> None \<and> previewCtx mounted \<noteq> None \<longrightarrow>
            previewLayer sk = blank
          \<and> persistentLayer s' = persistentLayer mounted @ [LayerPaint blank 0 0]
          \<and> previewLayer s' = blank))
   \<and> ctx mounted \<noteq> None \<and> previewCtx mounted \<noteq> None"
proof -
  have h: "drawMode (default_props\<lparr>drawMode := Move\<rparr>) = Move" by simp
  have a: "ctx mounted \<noteq> None" "previewCtx mounted \<noteq> None" by (simp_all add: mounted_def)
  show ?thesis
    using h a
      move_tool_gesture_is_inert [OF h, where ?canvasRef0.0 = canvas_at_origin and ?e0.0 = "MouseEvent 10 10"
        and ms = "[(canvas_at_origin, MouseEvent 30 20)]" and R = "\<lambda>q. transparent" and s = mounted]
    by simp
qed

section \<open>The two components\<close>

text \<open>
  C10. On the tools the two components share (pen, rectangle, circle, line), with sketchy
  rendering disabled, a pointer-move of the newer component and one of the older
  component turn the same state into the same state: the same clear, the same path
  commands and the same stroke at the same coordinates on the same context. The same
  holds for pointer-down and pointer-up.
\<close>

theorem shared_tools_same_operations:
  fixes q :: rough_props and p :: "draw_mode_v1 canvas_props" and s :: canvas_state
  assumes "\<not> enableRough q" and "drawMode q = shared_mode (drawMode p)"
    and "width q = width p" and "height q = height p"
  shows "draw q canvasRef s e = draw_v1 p canvasRef s e
       \<and> startDrawing q canvasRef s e = startDrawing_v1 p canvasRef s e
       \<and> stopDrawing q s = stopDrawing_v1 p s"
  using assms
  by (cases "drawMode p")
     (auto simp: draw_def draw_v1_def startDrawing_def startDrawing_v1_def stopDrawing_def
        stopDrawing_v1_def Let_def split: option.splits)


theorem shared_tools_same_operations_witness:
  "\<not> enableRough (default_props\<lparr>drawMode := Circle, enableRough := False\<rparr>)
   \<and> drawMode (default_props\<lparr>drawMode := Circle, enableRough := False\<rparr>) =
       shared_mode (drawMode (default_props_v1\<lparr>drawMode := Circle_v1\<rparr>))
   \<and> draw (default_props\<lparr>drawMode := Circle, enableRough := False\<rparr>) None
        (mounted\<lparr>isDrawing := True, startPos := Some \<lparr>coord_x = 1, coord_y = 2\<rparr>\<rparr>) (MouseEvent 4 6) =
      draw_v1 (default_props_v1\<lparr>drawMode := Circle_v1\<rparr>) None
        (mounted\<lparr>isDrawing := True, startPos := Some \<lparr>coord_x = 1, coord_y = 2\<rparr>\<rparr>) (MouseEvent 4 6)"
proof -
  have h1: "\<not> enableRough (default_props\<lparr>drawMode := Circle, enableRough := False\<rparr>)"
    by simp
  have h2: "drawMode (default_props\<lparr>drawMode := Circle, enableRough := False\<rparr>) =
       shared_mode (drawMode (default_props_v1\<lparr>drawMode := Circle_v1\<rparr>))"
    by simp
  have h3: "width (default_props\<lparr>drawMode := Circle, enableRough := False\<rparr>) =
       width (default_props_v1\<lparr>drawMode := Circle_v1\<rparr>)"
    and h4: "height (default_props\<lparr>drawMode := Circle, enableRough := False\<rparr>) =
       height (default_props_v1\<lparr>drawMode := Circle_v1\<rparr>)"
    by (simp_all add: default_props_def default_props_v1_def)
  show ?thesis
    using h1 h2
      shared_tools_same_operations [OF h1 h2 h3 h4, where canvasRef = None
        and s = "mounted\<lparr>isDrawing := True, startPos := Some \<lparr>coord_x = 1, coord_y = 2\<rparr>\<rparr>"
        and e = "MouseEvent 4 6"]
    by simp
qed

section \<open>Rectangles\<close>

lemma draw_rectangle:
  assumes "drawMode p = Rectangle" "isDrawing s" "ctx s = Some c" "previewCtx s = Some pc"
    "startPos s = Some sp"
  shows "map paint_rect (previewLayer (draw p cr s e)) =
           [Some (coord_x sp, coord_y sp,
                  double_sub (coord_x (getCoordinates cr e)) (coord_x sp),
                  double_sub (coord_y (getCoordinates cr e)) (coord_y sp))]"
  using assms
  by (auto simp: draw_def Let_def canvas_api_defs previewLayer_def blank_def paint_rect_def)

lemma rectangle_gesture:
  assumes "drawMode p = Rectangle" and "ctx s = Some c" and "previewCtx s = Some pc"
  shows "map paint_rect
       (previewLayer (pointer_moves p (startDrawing p cr0 s e0) (ns @ [(cr1, e1)])))
       = [Some (coord_x (getCoordinates cr0 e0), coord_y (getCoordinates cr0 e0),
                double_sub (coord_x (getCoordinates cr1 e1)) (coord_x (getCoordinates cr0 e0)),
                double_sub (coord_y (getCoordinates cr1 e1)) (coord_y (getCoordinates cr0 e0)))]"
proof -
  have np: "drawMode p \<noteq> Pen" and nt: "drawMode p \<noteq> Text"
    using assms(1) by auto
  define s1 where "s1 = startDrawing p cr0 s e0"
  have s1: "s1 = s\<lparr>isDrawing := True, startPos := Some (getCoordinates cr0 e0),
                    previewCtx := Some (pc\<lparr>raster := blank\<rparr>)\<rparr>"
    unfolding s1_def using assms(2,3) np nt by (rule startDrawing_shape)
  have a1: "isDrawing s1" "ctx s1 = Some c" "startPos s1 = Some (getCoordinates cr0 e0)"
    "previewCtx s1 = Some (pc\<lparr>raster := blank\<rparr>)"
    using assms(2) by (simp_all add: s1)
  have ss: "same_session (pointer_moves p s1 ns) s1"
    using a1 np by (rule moves_keep_session)
  have "previewLayer (draw p cr1 (pointer_moves p s1 ns) e1) = previewLayer (draw p cr1 s1 e1)"
    using ss a1 np by (rule draw_preview_only_last)
  then have "previewLayer (pointer_moves p s1 (ns @ [(cr1, e1)])) = previewLayer (draw p cr1 s1 e1)"
    by (simp add: pointer_moves_def)
  moreover have "map paint_rect (previewLayer (draw p cr1 s1 e1)) =
      [Some (coord_x (getCoordinates cr0 e0), coord_y (getCoordinates cr0 e0),
             double_sub (coord_x (getCoordinates cr1 e1)) (coord_x (getCoordinates cr0 e0)),
             double_sub (coord_y (getCoordinates cr1 e1)) (coord_y (getCoordinates cr0 e0)))]"
    using assms(1) a1(1,2,4,3) by (rule draw_rectangle)
  ultimately show ?thesis by (simp add: s1_def)
qed

text \<open>
  C6, as the code has it. A rectangle gesture anchored at \<open>P\<close> and ending at \<open>Q\<close>
  renders the rectangle with corner \<open>P\<close>, width \<open>Q.x - P.x\<close> and height \<open>Q.y - P.y\<close>
  as the host computes them, of either sign, in the precise and in the sketchy rendering;
  the gesture anchored at \<open>Q\<close> and ending at \<open>P\<close> renders the one with corner \<open>Q\<close>,
  width \<open>P.x - Q.x\<close> and height \<open>P.y - Q.y\<close>. When the host subtracts the coordinates
  without rounding, as it does for integer coordinates, the extents of the one are the
  extents of the other negated, and both span the same axis-aligned box, the one between
  the two corners.
\<close>

theorem rectangle_drag_direction:
  assumes "drawMode p = Rectangle" and "ctx s = Some c" and "previewCtx s = Some pc"
    and "getCoordinates canvasRefP eP = \<lparr>coord_x = px, coord_y = py\<rparr>"
    and "getCoordinates canvasRefQ eQ = \<lparr>coord_x = qx, coord_y = qy\<rparr>"
  shows "map paint_rect
           (previewLayer (pointer_moves p (startDrawing p canvasRefP s eP) (ms @ [(canvasRefQ, eQ)])))
           = [Some (px, py, double_sub qx px, double_sub qy py)]
       \<and> map paint_rect
           (previewLayer (pointer_moves p (startDrawing p canvasRefQ s eQ) (ms' @ [(canvasRefP, eP)])))
           = [Some (qx, qy, double_sub px qx, double_sub py qy)]
       \<and> (exact_drag px qx \<and> exact_drag py qy \<longrightarrow>
            double_sub qx px = qx - px \<and> double_sub qy py = qy - py
          \<and> double_sub px qx = - (qx - px) \<and> double_sub py qy = - (qy - py)
          \<and> rect_box (px, py, double_sub qx px, double_sub qy py) =
              rect_box (qx, qy, double_sub px qx, double_sub py qy)
          \<and> rect_box (px, py, double_sub qx px, double_sub qy py) =
              (min px qx, min py qy, max px qx, max py qy))"
proof -
  have g1: "map paint_rect
       (previewLayer (pointer_moves p (startDrawing p canvasRefP s eP) (ms @ [(canvasRefQ, eQ)])))
       = [Some (px, py, double_sub qx px, double_sub qy py)]"
    using rectangle_gesture [OF assms(1,2,3), of canvasRefP eP ms canvasRefQ eQ]
    by (simp add: assms(4,5))
  have g2: "map paint_rect
       (previewLayer (pointer_moves p (startDrawing p canvasRefQ s eQ) (ms' @ [(canvasRefP, eP)])))
       = [Some (qx, qy, double_sub px qx, double_sub py qy)]"
    using rectangle_gesture [OF assms(1,2,3), of canvasRefQ eQ ms' canvasRefP eP]
    by (simp add: assms(4,5))
  have g3: "double_sub qx px = qx - px \<and> double_sub qy py = qy - py
          \<and> double_sub px qx = - (qx - px) \<and> double_sub py qy = - (qy - py)
          \<and> rect_box (px, py, double_sub qx px, double_sub qy py) =
              rect_box (qx, qy, double_sub px qx, double_sub py qy)
          \<and> rect_box (px, py, double_sub qx px, double_sub qy py) =
              (min px qx, min py qy, max px qx, max py qy)"
    if e: "exact_drag px qx" "exact_drag py qy"
  proof -
    have ex: "double_round px = px" "double_round qx = qx" "double_round py = py"
      "double_round qy = qy"
      and d: "double_sub qx px = qx - px" "double_sub qy py = qy - py"
      using e by (simp_all add: exact_drag_def)
    have d': "double_sub px qx = - (qx - px)" "double_sub py qy = - (qy - py)"
      using e by (simp_all add: exact_drag_def)
    have b1: "rect_box (px, py, double_sub qx px, double_sub qy py) =
        (min px qx, min py qy, max px qx, max py qy)"
      by (simp add: rect_box_def d double_add_def ex)
    have b2: "rect_box (qx, qy, double_sub px qx, double_sub py qy) =
        (min px qx, min py qy, max px qx, max py qy)"
      by (simp add: rect_box_def d' double_add_def ex min.commute max.commute)
    have b3: "rect_box (px, py, double_sub qx px, double_sub qy py) =
        rect_box (qx, qy, double_sub px qx, double_sub py qy)"
      by (simp only: b1 b2)
    show ?thesis
      using d d' b3 b1 by blast
  qed
  show ?thesis
    using g1 g2 g3 by blast
qed

theorem rectangle_drag_direction_witness:
  "drawMode rectangle_props = Rectangle
   \<and> ctx mounted = Some fresh_context \<and> previewCtx mounted = Some fresh_context
   \<and> getCoordinates canvas_at_origin (MouseEvent 50 50) = \<lparr>coord_x = 50, coord_y = 50\<rparr>
   \<and> getCoordinates canvas_at_origin (MouseEvent 10 10) = \<lparr>coord_x = 10, coord_y = 10\<rparr>
   \<and> exact_drag 50 10
   \<and> map paint_rect
        (previewLayer (pointer_moves rectangle_props
           (startDrawing rectangle_props canvas_at_origin mounted (MouseEvent 50 50))
           [(canvas_at_origin, MouseEvent 30 30), (canvas_at_origin, MouseEvent 10 10)]))
        = [Some (50, 50, - 40, - 40)]
   \<and> map paint_rect
        (previewLayer (pointer_moves rectangle_props
           (startDrawing rectangle_props canvas_at_origin mounted (MouseEvent 10 10))
           [(canvas_at_origin, MouseEvent 50 50)]))
        = [Some (10, 10, 40, 40)]
   \<and> rect_box (50, 50, - 40, - 40) = rect_box (10, 10, 40, 40)
   \<and> rect_box (50, 50, - 40, - 40) = (10, 10, 50, 50)"
proof -
  have h1: "drawMode rectangle_props = Rectangle"
    by (simp add: rectangle_props_def)
  have h2: "ctx mounted = Some fresh_context" and h3: "previewCtx mounted = Some fresh_context"
    by (simp_all add: mounted_def)
  have h4: "getCoordinates canvas_at_origin (MouseEvent 50 50) = \<lparr>coord_x = 50, coord_y = 50\<rparr>"
    and h5: "getCoordinates canvas_at_origin (MouseEvent 10 10) = \<lparr>coord_x = 10, coord_y = 10\<rparr>"
    by (simp_all add: getCoordinates_def canvas_at_origin_def)
  have h6: "exact_drag 50 10"
    using exact_drag_int [of 50 10] by simp
  have d: "double_sub 10 50 = - 40" "double_sub 50 10 = 40"
    using double_sub_int [of 10 50] double_sub_int [of 50 10] by simp_all
  note T = rectangle_drag_direction [OF h1 h2 h3 h4 h5,
      where ms = "[(canvas_at_origin, MouseEvent 30 30)]" and ms' = "[]"]
  note B = T [THEN conjunct2, THEN conjunct2, rule_format, OF conjI, OF h6 h6]
  have w1: "map paint_rect
        (previewLayer (pointer_moves rectangle_props
           (startDrawing rectangle_props canvas_at_origin mounted (MouseEvent 50 50))
           [(canvas_at_origin, MouseEvent 30 30), (canvas_at_origin, MouseEvent 10 10)]))
        = [Some (50, 50, - 40, - 40)]"
    using T [THEN conjunct1] by (simp add: d)
  have w2: "map paint_rect
        (previewLayer (pointer_moves rectangle_props
           (startDrawing rectangle_props canvas_at_origin mounted (MouseEvent 10 10))
           [(canvas_at_origin, MouseEvent 50 50)]))
        = [Some (10, 10, 40, 40)]"
    using T [THEN conjunct2, THEN conjunct1] by (simp add: d)
  have w3: "rect_box (50, 50, - 40, - 40) = rect_box (10, 10, 40, 40)"
    using B [THEN conjunct2, THEN conjunct2, THEN conjunct2, THEN conjunct2, THEN conjunct1]
    by (simp add: d)
  have w4: "rect_box (50, 50, - 40, - 40) = (10, 10, 50, 50)"
    using B [THEN conjunct2, THEN conjunct2, THEN conjunct2, THEN conjunct2, THEN conjunct2]
    by (simp add: d)
  show ?thesis
    using h1 h2 h3 h4 h5 h6 w1 w2 w3 w4 by blast
qed

text \<open>
  C6 as stated fails where the host rounds the difference of the coordinates. Between the
  doubles next to 0.4 and 0.1 (\<open>point_four\<close>, \<open>point_one\<close>) the gesture from 0.4 to 0.1
  renders a rectangle that spans a box whose left edge is the double below
  \<open>point_one\<close>; the gesture from 0.1 to 0.4 renders one that spans the box between the
  two.
\<close>

theorem rectangle_drag_direction_counterexample:
  "map paint_rect
     (previewLayer (pointer_moves rectangle_props
        (startDrawing rectangle_props canvas_at_origin mounted (MouseEvent point_four 0))
        [(canvas_at_origin, MouseEvent point_one 0)]))
     = [Some (point_four, 0, double_sub point_one point_four, 0)]
   \<and> map paint_rect
     (previewLayer (pointer_moves rectangle_props
        (startDrawing rectangle_props canvas_at_origin mounted (MouseEvent point_one 0))
        [(canvas_at_origin, MouseEvent point_four 0)]))
     = [Some (point_one, 0, double_sub point_four point_one, 0)]
   \<and> rect_box (point_four, 0, double_sub point_one point_four, 0) =
       (7205759403792792 / 2 ^ 56, 0, point_four, 0)
   \<and> rect_box (point_one, 0, double_sub point_four point_one, 0) =
       (7205759403792794 / 2 ^ 56, 0, point_four, 0)
   \<and> rect_box (point_four, 0, double_sub point_one point_four, 0) \<noteq>
       rect_box (point_one, 0, double_sub point_four point_one, 0)
   \<and> double_sub point_one point_four \<noteq> point_one - point_four"
proof -
  have h1: "drawMode rectangle_props = Rectangle"
    by (simp add: rectangle_props_def)
  have h2: "ctx mounted = Some fresh_context" and h3: "previewCtx mounted = Some fresh_context"
    by (simp_all add: mounted_def)
  have c4: "getCoordinates canvas_at_origin (MouseEvent point_four 0) =
      \<lparr>coord_x = point_four, coord_y = 0\<rparr>"
    and c1: "getCoordinates canvas_at_origin (MouseEvent point_one 0) =
      \<lparr>coord_x = point_one, coord_y = 0\<rparr>"
    by (simp_all add: getCoordinates_def canvas_at_origin_def)
  have g1: "map paint_rect
     (previewLayer (pointer_moves rectangle_props
        (startDrawing rectangle_props canvas_at_origin mounted (MouseEvent point_four 0))
        [(canvas_at_origin, MouseEvent point_one 0)]))
     = [Some (point_four, 0, double_sub point_one point_four, 0)]"
    using rectangle_gesture [OF h1 h2 h3, of canvas_at_origin "MouseEvent point_four 0" "[]"
        canvas_at_origin "MouseEvent point_one 0"]
    by (simp add: c1 c4 double_sub_zero)
  have g2: "map paint_rect
     (previewLayer (pointer_moves rectangle_props
        (startDrawing rectangle_props canvas_at_origin mounted (MouseEvent point_one 0))
        [(canvas_at_origin, MouseEvent point_four 0)]))
     = [Some (point_one, 0, double_sub point_four point_one, 0)]"
    using rectangle_gesture [OF h1 h2 h3, of canvas_at_origin "MouseEvent point_one 0" "[]"
        canvas_at_origin "MouseEvent point_four 0"]
    by (simp add: c1 c4 double_sub_zero)
  have lt: "(7205759403792792 / 2 ^ 56 :: real) < point_four" "point_one < point_four"
    by (simp_all add: point_one_value point_four_value)
  have g3: "rect_box (point_four, 0, double_sub point_one point_four, 0) =
     (7205759403792792 / 2 ^ 56, 0, point_four, 0)"
    using lt(1) by (simp add: rect_box_def double_add_zero point_four_and_back)
  have "rect_box (point_one, 0, double_sub point_four point_one, 0) =
     (point_one, 0, point_four, 0)"
    using lt(2) by (simp add: rect_box_def double_add_zero point_one_and_forth)
  then have g4: "rect_box (point_one, 0, double_sub point_four point_one, 0) =
     (7205759403792794 / 2 ^ 56, 0, point_four, 0)"
    by (simp only: point_one_value)
  have g5: "rect_box (point_four, 0, double_sub point_one point_four, 0) \<noteq>
       rect_box (point_one, 0, double_sub point_four point_one, 0)"
    unfolding g3 g4 by simp
  have "(- 5404319552844596 / 2 ^ 54 :: real) \<noteq> point_one - point_four"
    by (simp add: point_one_value point_four_value)
  then have g6: "double_sub point_one point_four \<noteq> point_one - point_four"
    by (simp only: point_one_minus_four simp_thms)
  show ?thesis
    using g1 g2 g3 g4 g5 g6 by blast
qed

section \<open>Text entry\<close>

text \<open>
  C3, as the code has it. Enter without shift runs the text commit, which is also the
  handler of focus loss. With the main context available and a region open: when the
  content is non-empty after trimming, the commit paints the content as it is (not
  trimmed) at the anchor, in \<open>max (3 \<times> lineWidth) 14\<close> pixels sans-serif, top baseline,
  filled with the stroke colour, empties the content and closes the region; when the
  content is empty or white space only, the commit changes nothing: nothing is painted and
  the region stays open with its content.
\<close>

theorem text_confirm:
  assumes "ctx s = Some c" and "textInputPosition s = Some pos"
  shows "handleTextInputKeyDown p s ''Enter'' False = applyTextToCanvas p s
       \<and> (trim (textInputValue s) \<noteq> [] \<longrightarrow>
            textInputPosition (applyTextToCanvas p s) = None
          \<and> textInputValue (applyTextToCanvas p s) = []
          \<and> persistentLayer (applyTextToCanvas p s) =
              persistentLayer s @
                [TextPaint (textInputValue s) (coord_x pos) (coord_y pos)
                   \<lparr>font_px = max (3 * lineWidth p) 14, font_family = ''sans-serif''\<rparr>
                   (color p) Top (transform c)])
       \<and> (trim (textInputValue s) = [] \<longrightarrow> applyTextToCanvas p s = s)"
  using assms
  by (simp add: handleTextInputKeyDown_def applyTextToCanvas_def Let_def fillText_def
      persistentLayer_def mult.commute)

theorem text_confirm_witness:
  "ctx hi_pending = Some fresh_context
   \<and> textInputPosition hi_pending = Some \<lparr>coord_x = 1, coord_y = 1\<rparr>
   \<and> trim (textInputValue hi_pending) \<noteq> []
   \<and> textInputPosition (handleTextInputKeyDown default_props hi_pending ''Enter'' False) = None
   \<and> persistentLayer (handleTextInputKeyDown default_props hi_pending ''Enter'' False) =
       [TextPaint ''Hi'' 1 1 \<lparr>font_px = 15, font_family = ''sans-serif''\<rparr> ''#000000'' Top []]
   \<and> ctx whitespace_pending = Some fresh_context
   \<and> textInputPosition whitespace_pending = Some \<lparr>coord_x = 1, coord_y = 1\<rparr>
   \<and> trim (textInputValue whitespace_pending) = []
   \<and> handleTextInputKeyDown default_props whitespace_pending ''Enter'' False = whitespace_pending"
proof -
  have h1: "ctx hi_pending = Some fresh_context"
    and h2: "textInputPosition hi_pending = Some \<lparr>coord_x = 1, coord_y = 1\<rparr>"
    and h3: "trim (textInputValue hi_pending) \<noteq> []"
    by (simp_all add: hi_pending_def mounted_def trim_def is_white_space_def)
  have k1: "ctx whitespace_pending = Some fresh_context"
    and k2: "textInputPosition whitespace_pending = Some \<lparr>coord_x = 1, coord_y = 1\<rparr>"
    and k3: "trim (textInputValue whitespace_pending) = []"
    by (simp_all add: whitespace_pending_def mounted_def trim_def is_white_space_def)
  have v: "textInputValue hi_pending = ''Hi''" "persistentLayer hi_pending = []"
    "transform fresh_context = []" "lineWidth default_props = 5"
    "color default_props = ''#000000''"
    by (simp_all add: hi_pending_def mounted_def persistentLayer_def fresh_context_def blank_def
        default_props_def)
  show ?thesis
    using h1 h2 h3 k1 k2 k3
      text_confirm [OF h1 h2, of default_props] text_confirm [OF k1 k2, of default_props]
    by (simp add: v)
qed

text \<open>
  C3 as stated fails: with white space as the content, Enter leaves the region open.
\<close>

theorem text_confirm_counterexample:
  "ctx whitespace_pending \<noteq> None
   \<and> textInputPosition whitespace_pending \<noteq> None
   \<and> trim (textInputValue whitespace_pending) = []
   \<and> textInputPosition (handleTextInputKeyDown default_props whitespace_pending ''Enter'' False)
       \<noteq> None"
  by (simp add: handleTextInputKeyDown_def applyTextToCanvas_def whitespace_pending_def
      mounted_def trim_def is_white_space_def)

text \<open>
  C4, as the code has it. With the Text tool and a region already open, a pointer-down
  first runs the text commit on the pending region and then anchors the region at the
  clicked point. Pending content that is non-empty after trimming is painted at the old
  anchor and the new region starts empty; pending content that is white space only is not
  painted, and it stays as the content of the region at its new anchor.
\<close>

theorem text_click_elsewhere:
  assumes "drawMode p = Text" and "ctx s = Some c" and "previewCtx s = Some pc"
    and "textInputPosition s = Some pos"
  shows "startDrawing p canvasRef s e =
           (applyTextToCanvas p s)\<lparr>textInputPosition := Some (getCoordinates canvasRef e)\<rparr>
       \<and> (trim (textInputValue s) \<noteq> [] \<longrightarrow>
            persistentLayer (startDrawing p canvasRef s e) =
              persistentLayer s @
                [TextPaint (textInputValue s) (coord_x pos) (coord_y pos)
                   \<lparr>font_px = max (3 * lineWidth p) 14, font_family = ''sans-serif''\<rparr>
                   (color p) Top (transform c)]
          \<and> textInputValue (startDrawing p canvasRef s e) = [])
       \<and> (trim (textInputValue s) = [] \<longrightarrow>
            startDrawing p canvasRef s e = s\<lparr>textInputPosition := Some (getCoordinates canvasRef e)\<rparr>)"
  using assms
  by (simp add: startDrawing_def applyTextToCanvas_def Let_def fillText_def
      persistentLayer_def mult.commute)

theorem text_click_elsewhere_witness:
  "drawMode text_props = Text
   \<and> ctx hi_pending = Some fresh_context \<and> previewCtx hi_pending = Some fresh_context
   \<and> textInputPosition hi_pending = Some \<lparr>coord_x = 1, coord_y = 1\<rparr>
   \<and> trim (textInputValue hi_pending) \<noteq> []
   \<and> persistentLayer (startDrawing text_props canvas_at_origin hi_pending (MouseEvent 5 5)) =
       [TextPaint ''Hi'' 1 1 \<lparr>font_px = 15, font_family = ''sans-serif''\<rparr> ''#000000'' Top []]
   \<and> textInputValue (startDrawing text_props canvas_at_origin hi_pending (MouseEvent 5 5)) = []
   \<and> textInputPosition (startDrawing text_props canvas_at_origin hi_pending (MouseEvent 5 5)) =
       Some \<lparr>coord_x = 5, coord_y = 5\<rparr>
   \<and> trim (textInputValue whitespace_pending) = []
   \<and> startDrawing text_props canvas_at_origin whitespace_pending (MouseEvent 5 5) =
       whitespace_pending\<lparr>textInputPosition := Some \<lparr>coord_x = 5, coord_y = 5\<rparr>\<rparr>"
proof -
  have m: "drawMode text_props = Text" by (simp add: text_props_def)
  have h1: "ctx hi_pending = Some fresh_context"
    and h2: "previewCtx hi_pending = Some fresh_context"
    and h3: "textInputPosition hi_pending = Some \<lparr>coord_x = 1, coord_y = 1\<rparr>"
    and h4: "trim (textInputValue hi_pending) \<noteq> []"
    by (simp_all add: hi_pending_def mounted_def trim_def is_white_space_def)
  have k1: "ctx whitespace_pending = Some fresh_context"
    and k2: "previewCtx whitespace_pending = Some fresh_context"
    and k3: "textInputPosition whitespace_pending = Some \<lparr>coord_x = 1, coord_y = 1\<rparr>"
    and k4: "trim (textInputValue whitespace_pending) = []"
    by (simp_all add: whitespace_pending_def mounted_def trim_def is_white_space_def)
  have v: "textInputValue hi_pending = ''Hi''" "persistentLayer hi_pending = []"
    "transform fresh_context = []" "lineWidth text_props = 5" "color text_props = ''#000000''"
    "getCoordinates canvas_at_origin (MouseEvent 5 5) = \<lparr>coord_x = 5, coord_y = 5\<rparr>"
    by (simp_all add: hi_pending_def mounted_def persistentLayer_def fresh_context_def blank_def
        default_props_def text_props_def getCoordinates_def canvas_at_origin_def)
  note A = text_click_elsewhere [OF m h1 h2 h3, of canvas_at_origin "MouseEvent 5 5"]
  note B = text_click_elsewhere [OF m k1 k2 k3, of canvas_at_origin "MouseEvent 5 5"]
  have a1: "persistentLayer (startDrawing text_props canvas_at_origin hi_pending (MouseEvent 5 5)) =
       [TextPaint ''Hi'' 1 1 \<lparr>font_px = 15, font_family = ''sans-serif''\<rparr> ''#000000'' Top []]
     \<and> textInputValue (startDrawing text_props canvas_at_origin hi_pending (MouseEvent 5 5)) = []"
    using A [THEN conjunct2, THEN conjunct1] h4 by (simp add: v)
  have a2: "textInputPosition (startDrawing text_props canvas_at_origin hi_pending (MouseEvent 5 5)) =
       Some \<lparr>coord_x = 5, coord_y = 5\<rparr>"
    using A [THEN conjunct1] by (simp add: v)
  have b1: "startDrawing text_props canvas_at_origin whitespace_pending (MouseEvent 5 5) =
       whitespace_pending\<lparr>textInputPosition := Some \<lparr>coord_x = 5, coord_y = 5\<rparr>\<rparr>"
    using B [THEN conjunct2, THEN conjunct2] k4 by (simp add: v)
  show ?thesis
    using m h1 h2 h3 h4 k4 a1 a2 b1 by simp
qed

text \<open>
  C4 as stated fails: white space that was pending is not discarded, it is the content of
  the region after the click.
\<close>

theorem text_click_elsewhere_counterexample:
  "textInputPosition whitespace_pending \<noteq> None
   \<and> trim (textInputValue whitespace_pending) = []
   \<and> textInputValue (startDrawing text_props canvas_at_origin whitespace_pending (MouseEvent 5 5))
       \<noteq> []"
  by (simp add: startDrawing_def applyTextToCanvas_def whitespace_pending_def text_props_def
      mounted_def trim_def is_white_space_def Let_def)

section \<open>Pasted images\<close>

text \<open>
  C5. The claim describes the blit of a pasted image. The code has that blit in
  \<^verbatim>\<open>img.onload\<close>, and does not reach it: whatever is pasted, the paste event leaves the
  component as it was, because the listener runs \<^verbatim>\<open>handlePaste\<close> with the \<open>ctx\<close> of
  the first render, which is null. On the mounted component with the default props, a
  pasted 100 by 50 PNG leaves the persistent layer blank; the same \<^verbatim>\<open>handlePaste\<close> run
  on the cells of the current render blits it at \<open>(350, 275)\<close>, as the claim says.
\<close>

theorem paste_is_dropped:
  "on_paste p canvasRef s clipboardItems = s
   \<and> persistentLayer (on_paste default_props canvas_at_origin mounted (Some [png_item])) = blank
   \<and> persistentLayer (handlePaste default_props canvas_at_origin mounted (Some [png_item])) =
       [ImagePaint small_image 350 275 100 50]"
proof -
  have g1: "on_paste q cr t items = t" for q cr t items
    by (simp add: on_paste_def handlePaste_def first_render_def)
  have g2: "persistentLayer mounted = blank"
    by (simp add: persistentLayer_def mounted_def fresh_context_def)
  have g3: "first_image [png_item] = Some small_image"
    by (simp add: png_item_def)
  have g4: "paste_placement default_props small_image = Some (350, 275, 100, 50)"
    by (simp add: paste_placement_def Let_def default_props_def small_image_def)
  have g5: "persistentLayer (handlePaste default_props canvas_at_origin mounted (Some [png_item])) =
       [ImagePaint small_image 350 275 100 50]"
    by (simp add: handlePaste_def g3 img_onload_def g4 drawImage_def persistentLayer_def
        mounted_def canvas_at_origin_def fresh_context_def blank_def del: first_image.simps)
  show ?thesis
    by (simp only: g1 g2 g5 simp_thms)
qed

section \<open>Arrows\<close>

lemma sqrt_one_plus_ratio:
  assumes "x \<noteq> 0"
  shows "sqrt (1 + (y / x)\<^sup>2) = sqrt (x\<^sup>2 + y\<^sup>2) / \<bar>x\<bar>"
proof -
  have "1 + (y / x)\<^sup>2 = (x\<^sup>2 + y\<^sup>2) / x\<^sup>2"
    using assms by (simp add: power_divide add_divide_distrib)
  then show ?thesis
    by (simp add: real_sqrt_divide)
qed

lemma atan2_polar:
  assumes "x \<noteq> 0 \<or> y \<noteq> 0"
  shows "cos (atan2 y x) = x / sqrt (x\<^sup>2 + y\<^sup>2)"
    and "sin (atan2 y x) = y / sqrt (x\<^sup>2 + y\<^sup>2)"
proof -
  have "cos (atan2 y x) = x / sqrt (x\<^sup>2 + y\<^sup>2) \<and> sin (atan2 y x) = y / sqrt (x\<^sup>2 + y\<^sup>2)"
  proof (cases "x = 0")
    case True
    with assms have "y \<noteq> 0" by simp
    then show ?thesis
      using True by (cases "0 < y") (simp_all add: atan2_def)
  next
    case False
    have c: "cos (arctan (y / x)) = \<bar>x\<bar> / sqrt (x\<^sup>2 + y\<^sup>2)"
      by (simp add: cos_arctan sqrt_one_plus_ratio [OF False])
    have s: "sin (arctan (y / x)) = (y / x) * \<bar>x\<bar> / sqrt (x\<^sup>2 + y\<^sup>2)"
      by (simp add: sin_arctan sqrt_one_plus_ratio [OF False])
    show ?thesis
    proof (cases "0 < x")
      case True
      then show ?thesis using c s by (simp add: atan2_def)
    next
      case neg: False
      with False have "x < 0" by simp
      then show ?thesis using c s False
        by (simp add: atan2_def)
    qed
  qed
  then show "cos (atan2 y x) = x / sqrt (x\<^sup>2 + y\<^sup>2)"
    and "sin (atan2 y x) = y / sqrt (x\<^sup>2 + y\<^sup>2)" by simp_all
qed

lemma head_point_polar:
  assumes "a \<noteq> c"
  shows "head_point a c len ang =
           (fst c - len * cos (atan2 (snd c - snd a) (fst c - fst a) + ang),
            snd c - len * sin (atan2 (snd c - snd a) (fst c - fst a) + ang))"
proof -
  have nz: "fst c - fst a \<noteq> 0 \<or> snd c - snd a \<noteq> 0"
    using assms by (auto simp: prod_eq_iff)
  show ?thesis
    by (simp add: head_point_def Let_def cos_add sin_add atan2_polar [OF nz])
qed


lemma head_point_distance:
  assumes "a \<noteq> c"
  shows "(fst c - fst (head_point a c len ang))\<^sup>2 + (snd c - snd (head_point a c len ang))\<^sup>2
           = len\<^sup>2"
proof -
  define t where "t = atan2 (snd c - snd a) (fst c - fst a) + ang"
  have "len\<^sup>2 * (cos t)\<^sup>2 + len\<^sup>2 * (sin t)\<^sup>2 = len\<^sup>2 * ((cos t)\<^sup>2 + (sin t)\<^sup>2)"
    by (simp only: distrib_left)
  then have e: "len\<^sup>2 * (cos t)\<^sup>2 + len\<^sup>2 * (sin t)\<^sup>2 = len\<^sup>2"
    by simp
  show ?thesis
    unfolding head_point_polar [OF assms] t_def [symmetric]
    by (simp add: power_mult_distrib e)
qed

lemma sqrt_five_quarters: "sqrt (1 + (1 / 2)\<^sup>2) = sqrt 5 / 2"
proof -
  have "1 + (1 / 2 :: real)\<^sup>2 = 5 / 2\<^sup>2" by (simp add: power2_eq_square)
  then have "sqrt (1 + (1 / 2)\<^sup>2) = sqrt (5 / 2\<^sup>2)" by (simp only:)
  also have "\<dots> = sqrt 5 / sqrt (2\<^sup>2)" by (rule real_sqrt_divide)
  also have "\<dots> = sqrt 5 / 2" by (simp only: real_sqrt_abs abs_numeral)
  finally show ?thesis .
qed

lemma cos_arctan_half: "cos (arctan (1 / 2)) = 2 / sqrt 5"
  by (simp add: cos_arctan sqrt_five_quarters)

lemma sin_arctan_half: "sin (arctan (1 / 2)) = 1 / sqrt 5"
  by (simp add: sin_arctan sqrt_five_quarters)

lemma head_point_depth_side:
  "head_point a c (len * sqrt 5 / 2) (arctan (1 / 2)) =
     (let d = sqrt ((fst c - fst a)\<^sup>2 + (snd c - snd a)\<^sup>2);
          ux = (fst c - fst a) / d;
          uy = (snd c - snd a) / d
      in (fst c - len * ux + len / 2 * uy, snd c - len * uy - len / 2 * ux))"
  "head_point a c (len * sqrt 5 / 2) (- arctan (1 / 2)) =
     (let d = sqrt ((fst c - fst a)\<^sup>2 + (snd c - snd a)\<^sup>2);
          ux = (fst c - fst a) / d;
          uy = (snd c - snd a) / d
      in (fst c - len * ux - len / 2 * uy, snd c - len * uy + len / 2 * ux))"
  by (simp_all add: head_point_def Let_def cos_arctan_half sin_arctan_half algebra_simps)

lemma draw_arrow_precise:
  assumes "drawMode p = Arrow" "isDrawing s" "ctx s = Some c" "previewCtx s = Some pc"
    "startPos s = Some \<lparr>coord_x = ax, coord_y = ay\<rparr>"
    "getCoordinates canvasRef e = \<lparr>coord_x = cx, coord_y = cy\<rparr>"
    "\<not> (enableRough p \<and> roughGenerator s)"
  shows "previewLayer (draw p canvasRef s e) =
     [StrokePaint [PMoveTo ax ay, PLineTo cx cy] (strokeStyle pc) (ctx_lineWidth pc) (transform pc),
      FillPaint
        [PMoveTo cx cy,
         PLineTo (cx - min (lineWidth p * 5) 20 * cos (atan2 (cy - ay) (cx - ax) - pi / 6))
                 (cy - min (lineWidth p * 5) 20 * sin (atan2 (cy - ay) (cx - ax) - pi / 6)),
         PLineTo (cx - min (lineWidth p * 5) 20 * cos (atan2 (cy - ay) (cx - ax) + pi / 6))
                 (cy - min (lineWidth p * 5) 20 * sin (atan2 (cy - ay) (cx - ax) + pi / 6)),
         PClosePath]
        (color p) (transform pc)]"
  using assms
  by (auto simp: draw_def Let_def canvas_api_defs previewLayer_def blank_def)

lemma draw_arrow_rough:
  assumes "drawMode p = Arrow" "isDrawing s" "ctx s = Some c" "previewCtx s = Some pc"
    "startPos s = Some \<lparr>coord_x = ax, coord_y = ay\<rparr>"
    "getCoordinates canvasRef e = \<lparr>coord_x = cx, coord_y = cy\<rparr>"
    "enableRough p \<and> roughGenerator s"
  shows "previewLayer (draw p canvasRef s e) =
     [RoughPaint
        (RoughLinearPath
           [(0, 0), (- min (lineWidth p * 5) 20, - min (lineWidth p * 5) 20 / 2),
            (- min (lineWidth p * 5) 20, min (lineWidth p * 5) 20 / 2), (0, 0)]
           \<lparr>opt_stroke = color p, opt_strokeWidth = lineWidth p, opt_roughness = roughness p,
            opt_fill = Some (color p)\<rparr>)
        (transform pc @ [Translate cx cy, Rotate (atan2 (cy - ay) (cx - ax))])]"
  using assms
  by (auto simp: draw_def Let_def canvas_api_defs previewLayer_def blank_def)

text \<open>
  C2, as the code has it. For an arrow from the anchor \<open>a\<close> to a different point \<open>c\<close>,
  with \<open>h = min (5 \<times> lineWidth) 20\<close>. Precise rendering strokes the segment from \<open>a\<close>
  to \<open>c\<close> and fills a closed arrowhead with its tip at \<open>c\<close> and its two back points at
  distance \<open>h\<close> from the tip, at the angles \<open>- \<pi>/6\<close> and \<open>\<pi>/6\<close> off the line. Sketchy
  rendering draws the arrowhead as a roughjs path of four points, requested with the
  stroke colour as its fill, under a transform that puts its tip at \<open>c\<close> and turns it to
  the angle of the line; its back corners are \<open>h\<close> behind the tip along the line and
  \<open>h / 2\<close> to either side, that is at distance \<open>h \<times> sqrt 5 / 2\<close> from the tip and at
  the angles \<open>arctan (1/2)\<close> and \<open>- arctan (1/2)\<close> off the line.
\<close>

theorem arrow_geometry:
  assumes "drawMode p = Arrow" and "isDrawing s" and "ctx s = Some c" and "previewCtx s = Some pc"
    and "startPos s = Some \<lparr>coord_x = ax, coord_y = ay\<rparr>"
    and "getCoordinates canvasRef e = \<lparr>coord_x = cx, coord_y = cy\<rparr>"
    and "(ax, ay) \<noteq> (cx, cy)"
  shows "let h = min (5 * lineWidth p) 20;
             b1 = head_point (ax, ay) (cx, cy) h (- pi / 6);
             b2 = head_point (ax, ay) (cx, cy) h (pi / 6);
             tf = [Translate cx cy, Rotate (atan2 (cy - ay) (cx - ax))]
         in (cx - fst b1)\<^sup>2 + (cy - snd b1)\<^sup>2 = h\<^sup>2
          \<and> (cx - fst b2)\<^sup>2 + (cy - snd b2)\<^sup>2 = h\<^sup>2
          \<and> (\<not> (enableRough p \<and> roughGenerator s) \<longrightarrow>
               previewLayer (draw p canvasRef s e) =
                 [StrokePaint [PMoveTo ax ay, PLineTo cx cy]
                    (strokeStyle pc) (ctx_lineWidth pc) (transform pc),
                  FillPaint
                    [PMoveTo cx cy, PLineTo (fst b1) (snd b1), PLineTo (fst b2) (snd b2), PClosePath]
                    (color p) (transform pc)])
          \<and> (enableRough p \<and> roughGenerator s \<longrightarrow>
               RoughPaint
                 (RoughLinearPath [(0, 0), (- h, - h / 2), (- h, h / 2), (0, 0)]
                    \<lparr>opt_stroke = color p, opt_strokeWidth = lineWidth p,
                     opt_roughness = roughness p, opt_fill = Some (color p)\<rparr>)
                 (transform pc @ tf)
                 \<in> set (previewLayer (draw p canvasRef s e))
             \<and> to_canvas tf (0, 0) = (cx, cy)
             \<and> to_canvas tf (- h, - h / 2) =
                 head_point (ax, ay) (cx, cy) (h * sqrt 5 / 2) (arctan (1 / 2))
             \<and> to_canvas tf (- h, h / 2) =
                 head_point (ax, ay) (cx, cy) (h * sqrt 5 / 2) (- arctan (1 / 2)))"
proof -
  define h where "h = min (5 * lineWidth p) 20"
  define th where "th = atan2 (cy - ay) (cx - ax)"
  define d where "d = sqrt ((cx - ax)\<^sup>2 + (cy - ay)\<^sup>2)"
  have h': "min (lineWidth p * 5) 20 = h" by (simp add: h_def mult.commute)
  have nz: "cx - ax \<noteq> 0 \<or> cy - ay \<noteq> 0" using assms(7) by auto
  have cs: "cos th = (cx - ax) / d" "sin th = (cy - ay) / d"
    unfolding th_def d_def using atan2_polar [OF nz] by simp_all
  have b1: "head_point (ax, ay) (cx, cy) h (- pi / 6) =
      (cx - h * cos (th - pi / 6), cy - h * sin (th - pi / 6))"
    using head_point_polar [of "(ax, ay)" "(cx, cy)" h "- pi / 6"] assms(7)
    by (simp add: th_def)
  have b2: "head_point (ax, ay) (cx, cy) h (pi / 6) =
      (cx - h * cos (th + pi / 6), cy - h * sin (th + pi / 6))"
    using head_point_polar [of "(ax, ay)" "(cx, cy)" h "pi / 6"] assms(7)
    by (simp add: th_def)
  have precise: "previewLayer (draw p canvasRef s e) =
      [StrokePaint [PMoveTo ax ay, PLineTo cx cy] (strokeStyle pc) (ctx_lineWidth pc) (transform pc),
       FillPaint
         [PMoveTo cx cy,
          PLineTo (fst (head_point (ax, ay) (cx, cy) h (- pi / 6)))
                  (snd (head_point (ax, ay) (cx, cy) h (- pi / 6))),
          PLineTo (fst (head_point (ax, ay) (cx, cy) h (pi / 6)))
                  (snd (head_point (ax, ay) (cx, cy) h (pi / 6))),
          PClosePath]
         (color p) (transform pc)]"
    if "\<not> (enableRough p \<and> roughGenerator s)"
    using draw_arrow_precise [OF assms(1-6) that] by (simp only: b1 b2 h' th_def fst_conv snd_conv)
  have rough: "RoughPaint
         (RoughLinearPath [(0, 0), (- h, - h / 2), (- h, h / 2), (0, 0)]
            \<lparr>opt_stroke = color p, opt_strokeWidth = lineWidth p,
             opt_roughness = roughness p, opt_fill = Some (color p)\<rparr>)
         (transform pc @ [Translate cx cy, Rotate th])
       \<in> set (previewLayer (draw p canvasRef s e))"
    if "enableRough p \<and> roughGenerator s"
    using draw_arrow_rough [OF assms(1-6) that] by (simp add: h' th_def)
  have t0: "to_canvas [Translate cx cy, Rotate th] (0, 0) = (cx, cy)"
    by (simp add: to_canvas_def)
  define ux uy where "ux = (cx - ax) / d" and "uy = (cy - ay) / d"
  have cs': "cos th = ux" "sin th = uy" by (simp_all add: cs ux_def uy_def)
  have hp1: "head_point (ax, ay) (cx, cy) (h * sqrt 5 / 2) (arctan (1 / 2)) =
      (cx - h * ux + h / 2 * uy, cy - h * uy - h / 2 * ux)"
    by (simp add: head_point_depth_side Let_def ux_def uy_def d_def)
  have hp2: "head_point (ax, ay) (cx, cy) (h * sqrt 5 / 2) (- arctan (1 / 2)) =
      (cx - h * ux - h / 2 * uy, cy - h * uy + h / 2 * ux)"
    by (simp add: head_point_depth_side Let_def ux_def uy_def d_def)
  have t1: "to_canvas [Translate cx cy, Rotate th] (- h, - h / 2) =
      head_point (ax, ay) (cx, cy) (h * sqrt 5 / 2) (arctan (1 / 2))"
    unfolding hp1 by (simp add: to_canvas_def cs' algebra_simps)
  have t2: "to_canvas [Translate cx cy, Rotate th] (- h, h / 2) =
      head_point (ax, ay) (cx, cy) (h * sqrt 5 / 2) (- arctan (1 / 2))"
    unfolding hp2 by (simp add: to_canvas_def cs' algebra_simps)
  have d1: "(cx - fst (head_point (ax, ay) (cx, cy) h (- pi / 6)))\<^sup>2
      + (cy - snd (head_point (ax, ay) (cx, cy) h (- pi / 6)))\<^sup>2 = h\<^sup>2"
    using head_point_distance [OF assms(7), of h "- pi / 6"] by simp
  have d2: "(cx - fst (head_point (ax, ay) (cx, cy) h (pi / 6)))\<^sup>2
      + (cy - snd (head_point (ax, ay) (cx, cy) h (pi / 6)))\<^sup>2 = h\<^sup>2"
    using head_point_distance [OF assms(7), of h "pi / 6"] by simp
  show ?thesis
    unfolding Let_def h_def [symmetric] th_def [symmetric]
    using d1 d2 precise rough t0 t1 t2 by blast
qed

lemma sqrt3_not_2: "sqrt 3 \<noteq> 2"
proof
  assume "sqrt 3 = 2"
  then have "(sqrt 3)\<^sup>2 = 2\<^sup>2" by simp
  then show False by simp
qed

theorem arrow_geometry_witness:
  "drawMode arrow_props = Arrow \<and> isDrawing drawing_from_origin
   \<and> startPos drawing_from_origin = Some \<lparr>coord_x = 0, coord_y = 0\<rparr>
   \<and> getCoordinates canvas_at_origin (MouseEvent 100 0) = \<lparr>coord_x = 100, coord_y = 0\<rparr>
   \<and> enableRough arrow_props \<and> roughGenerator drawing_from_origin
   \<and> to_canvas [Translate 100 0, Rotate (atan2 (0 - 0) (100 - 0))] (0, 0) = (100, 0)
   \<and> \<not> enableRough (arrow_props\<lparr>enableRough := False\<rparr>)
   \<and> previewLayer (draw (arrow_props\<lparr>enableRough := False\<rparr>) canvas_at_origin
                      drawing_from_origin (MouseEvent 100 0)) =
       [StrokePaint [PMoveTo 0 0, PLineTo 100 0] ''#000000'' 5 [],
        FillPaint
          [PMoveTo 100 0, PLineTo (100 - 10 * sqrt 3) 10, PLineTo (100 - 10 * sqrt 3) (- 10),
           PClosePath]
          ''#000000'' []]"
proof -
  have m: "drawMode arrow_props = Arrow" "drawMode (arrow_props\<lparr>enableRough := False\<rparr>) = Arrow"
    by (simp_all add: arrow_props_def)
  have h1: "isDrawing drawing_from_origin"
    and h2: "ctx drawing_from_origin = Some fresh_context"
    and h3: "previewCtx drawing_from_origin = Some fresh_context"
    and h4: "startPos drawing_from_origin = Some \<lparr>coord_x = 0, coord_y = 0\<rparr>"
    and h5: "getCoordinates canvas_at_origin (MouseEvent 100 0) = \<lparr>coord_x = 100, coord_y = 0\<rparr>"
    and h6: "((0, 0) :: real \<times> real) \<noteq> (100, 0)"
    by (simp_all add: drawing_from_origin_def mounted_def getCoordinates_def canvas_at_origin_def)
  have r: "enableRough arrow_props" "roughGenerator drawing_from_origin"
    "\<not> enableRough (arrow_props\<lparr>enableRough := False\<rparr>)"
    by (simp_all add: arrow_props_def default_props_def drawing_from_origin_def mounted_def)
  have v: "lineWidth (arrow_props\<lparr>enableRough := False\<rparr>) = 5"
    "color (arrow_props\<lparr>enableRough := False\<rparr>) = ''#000000''"
    "strokeStyle fresh_context = ''#000000''" "ctx_lineWidth fresh_context = 5"
    "transform fresh_context = []"
    by (simp_all add: arrow_props_def default_props_def fresh_context_def)
  have g: "head_point (0, 0) (100, 0) 20 (- (pi / 6)) = (100 - 10 * sqrt 3, 10)"
    "head_point (0, 0) (100, 0) 20 (pi / 6) = (100 - 10 * sqrt 3, - 10)"
    by (simp_all add: head_point_def Let_def cos_30 sin_30)
  show ?thesis
    using m h1 h4 h5 r
      arrow_geometry [OF m(1) h1 h2 h3 h4 h5 h6]
      arrow_geometry [OF m(2) h1 h2 h3 h4 h5 h6]
    by (simp add: Let_def v g)
qed

text \<open>
  C2 as stated fails in the sketchy rendering, which is the default: for the anchor
  \<open>(0, 0)\<close>, the point \<open>(100, 0)\<close> and line width 5 the preview holds the arrowhead
  alone, and its back corners are at \<open>(80, -10)\<close> and \<open>(80, 10)\<close>, not at the points at
  distance 20 and 30 degrees off the line.
\<close>

theorem arrow_geometry_counterexample:
  "previewLayer (draw arrow_props canvas_at_origin drawing_from_origin (MouseEvent 100 0)) =
     [RoughPaint
        (RoughLinearPath [(0, 0), (- 20, - 10), (- 20, 10), (0, 0)]
           \<lparr>opt_stroke = ''#000000'', opt_strokeWidth = 5, opt_roughness = 1,
            opt_fill = Some ''#000000''\<rparr>)
        [Translate 100 0, Rotate 0]]
   \<and> to_canvas [Translate 100 0, Rotate 0] (- 20, - 10) = (80, - 10)
   \<and> to_canvas [Translate 100 0, Rotate 0] (- 20, 10) = (80, 10)
   \<and> head_point (0, 0) (100, 0) (min (5 * 5) 20) (- pi / 6) = (100 - 10 * sqrt 3, 10)
   \<and> head_point (0, 0) (100, 0) (min (5 * 5) 20) (pi / 6) = (100 - 10 * sqrt 3, - 10)
   \<and> (80 :: real) \<noteq> 100 - 10 * sqrt 3"
proof -
  have a: "atan2 0 100 = 0" by (simp add: atan2_def)
  have g1: "previewLayer (draw arrow_props canvas_at_origin drawing_from_origin (MouseEvent 100 0)) =
     [RoughPaint
        (RoughLinearPath [(0, 0), (- 20, - 10), (- 20, 10), (0, 0)]
           \<lparr>opt_stroke = ''#000000'', opt_strokeWidth = 5, opt_roughness = 1,
            opt_fill = Some ''#000000''\<rparr>)
        [Translate 100 0, Rotate 0]]"
    by (simp add: draw_def Let_def canvas_api_defs previewLayer_def blank_def arrow_props_def
        default_props_def canvas_at_origin_def drawing_from_origin_def mounted_def
        fresh_context_def getCoordinates_def a)
  have g2: "to_canvas [Translate 100 0, Rotate 0] (- 20, - 10) = (80, - 10)"
    "to_canvas [Translate 100 0, Rotate 0] (- 20, 10) = (80, 10)"
    by (simp_all add: to_canvas_def)
  have g3: "head_point (0, 0) (100, 0) (min (5 * 5) 20) (- pi / 6) = (100 - 10 * sqrt 3, 10)"
    "head_point (0, 0) (100, 0) (min (5 * 5) 20) (pi / 6) = (100 - 10 * sqrt 3, - 10)"
    by (simp_all add: head_point_def Let_def cos_30 sin_30)
  have g4: "(80 :: real) \<noteq> 100 - 10 * sqrt 3"
    using sqrt3_not_2 by simp
  show ?thesis using g1 g2 g3 g4 by simp
qed

end
